theory Spec2Isabelle
  imports Complex_Main "HOL-Library.List_Lexorder" "HOL-Library.Char_ord"
begin

section \<open>Data model (types.ts)\<close>

text \<open>
  A JavaScript number is a binary64 double. Money amounts, prices and tax rates are
  held as \<^typ>\<open>rat\<close>, the exact value of a finite double; stock and sold quantities
  as \<^typ>\<open>int\<close>, since the Inventory and Billing pages read and step them as whole
  numbers (\<open>parseInt\<close>, \<open>qty + 1\<close>). The arithmetic on them is not exact: see the
  section on numbers. Optional fields (\<open>field?: T\<close>) are \<open>T option\<close>, with \<open>None\<close> for
  \<open>undefined\<close>. The key-value store behind \<open>get\<close>/\<open>set\<close> is modelled as working:
  \<open>get\<close> returns what the last \<open>set\<close> of that key wrote, and \<open>[]\<close> before any write.
\<close>

datatype PaymentMode = CASH | CREDIT | UPI | MIXED

datatype BillStatus = Status_PAID | Status_CREDIT | Status_PARTIAL | Status_CANCELLED

datatype KhataType = DEBIT | Khata_CREDIT

record Product =
  p_id :: string
  p_name :: string
  code :: string
  category :: string
  purchasePrice :: rat
  sellingPrice :: rat
  stock :: int
  stockUnit :: "string option"
  gstPercent :: rat
  gstIncluded :: "bool option"

record CartItem = Product +
  qty :: int
  discount :: rat

record Customer =
  c_id :: string
  c_name :: string
  mobile :: string
  address :: "string option"
  gst :: "string option"

record Bill =
  b_id :: string
  b_date :: string
  timestamp :: int
  items :: "CartItem list"
  subtotal :: rat
  totalGst :: rat
  totalDiscount :: rat
  grandTotal :: rat
  paymentMode :: PaymentMode
  customerId :: "string option"
  cashAmount :: "rat option"
  upiAmount :: "rat option"
  status :: BillStatus

record LedgerEntry =
  date :: string
  openingBalance :: rat
  grossSales :: rat
  onlineSales :: rat
  creditSales :: rat
  expenses :: rat
  expectedCash :: rat
  actualCash :: rat
  depositedToBank :: rat
  closingBalance :: rat
  difference :: rat
  isClosed :: bool
  isAutoMode :: bool
  l_notes :: "string option"

record KhataEntry =
  k_id :: string
  billId :: "string option"
  k_customerId :: string
  amount :: rat
  k_type :: KhataType
  k_date :: string
  description :: string

text \<open>The five collections kept under the keys of \<open>KEYS\<close> in services/storage.ts.\<close>

record Store =
  products :: "Product list"
  bills :: "Bill list"
  customers :: "Customer list"
  ledger :: "LedgerEntry list"
  khata :: "KhataEntry list"

definition emptyStore :: Store where
  "emptyStore = \<lparr>products = [], bills = [], customers = [], ledger = [], khata = []\<rparr>"

datatype error = CustomerRequired | NoLedgerLoaded | ActualCashMissing | DepositExceedsCash

section \<open>JavaScript numbers\<close>

subsection \<open>Whole numbers: stock and quantities\<close>

text \<open>The number of binary digits of a positive integer.\<close>

function bitLength :: "int \<Rightarrow> nat" where
  "bitLength n = (if n \<le> 0 then 0 else Suc (bitLength (n div 2)))"
  by pat_completeness auto
termination
  by (relation "measure nat") auto

declare bitLength.simps [simp del]

text \<open>
  \<open>dbl n\<close> is the double nearest to the integer \<open>n\<close>, a tie going to the even
  significand (IEEE 754 round-to-nearest-even): a double has 53 significant binary
  digits, so an integer of more digits is rounded to a multiple of the power of two
  \<open>u\<close> that its surplus digits span. Every integer up to \<open>2 ^ 53\<close> in magnitude is its
  own double. The sum and the difference of two whole doubles are the doubles nearest to
  the exact sum and difference, which is what \<open>stock -= qty\<close> and \<open>stock += qty\<close> store.
  (From \<open>2 ^ 1024\<close> on a double is \<open>Infinity\<close>; the forms cannot enter such a stock.)
\<close>

definition dbl :: "int \<Rightarrow> int" where
  "dbl n =
     (let a = \<bar>n\<bar>;
          u = 2 ^ (bitLength a - 53);
          q = a div u;
          r = a mod u
      in sgn n * u * (if 2 * r < u \<or> (2 * r = u \<and> even q) then q else q + 1))"

definition jsSub :: "int \<Rightarrow> int \<Rightarrow> int" where
  "jsSub a b = dbl (a - b)"

definition jsAdd :: "int \<Rightarrow> int \<Rightarrow> int" where
  "jsAdd a b = dbl (a + b)"

subsection \<open>Money: the four operations\<close>

text \<open>
  The functions that compute with money take the four operations \<open>+\<close>, \<open>-\<close>, \<open>*\<close>, \<open>/\<close>
  of JavaScript as a parameter, so that what is proved of them holds of whatever these
  operations return. Comparison of finite doubles is the comparison of their values.
\<close>

record arith =
  js_add :: "rat \<Rightarrow> rat \<Rightarrow> rat"
  js_sub :: "rat \<Rightarrow> rat \<Rightarrow> rat"
  js_mul :: "rat \<Rightarrow> rat \<Rightarrow> rat"
  js_div :: "rat \<Rightarrow> rat \<Rightarrow> rat"

text \<open>
  The operations of binary64 where the result is finite: each returns the double
  nearest to the exact result (\<open>fl\<close>, ties to the even significand). \<open>expo x\<close> is the
  exponent \<open>e\<close> with \<open>2 ^ e \<le> |x| < 2 ^ (e + 1)\<close>; the doubles around \<open>x\<close> are the
  multiples of \<open>2 ^ (e - 52)\<close>, and of \<open>2 ^ (-1074)\<close> below the normal range. Where
  JavaScript returns \<open>Infinity\<close> or \<open>NaN\<close> (a result beyond the largest double, a
  division by zero) the model has no such value: what is stated of \<open>binary64\<close> is stated
  of computations all of whose results are finite.
\<close>

definition pow2 :: "int \<Rightarrow> rat" where
  "pow2 k = (if 0 \<le> k then 2 ^ nat k else 1 / 2 ^ nat (- k))"

definition expo :: "rat \<Rightarrow> int" where
  "expo x =
     (if 1 \<le> \<bar>x\<bar> then int (bitLength \<lfloor>\<bar>x\<bar>\<rfloor>) - 1
      else - int (bitLength (\<lceil>1 / \<bar>x\<bar>\<rceil> - 1)))"

definition roundEven :: "rat \<Rightarrow> int" where
  "roundEven m =
     (let f = \<lfloor>m\<rfloor>; d = m - of_int f
      in if d < 1 / 2 then f else if 1 / 2 < d then f + 1 else if even f then f else f + 1)"

definition fl :: "rat \<Rightarrow> rat" where
  "fl x = (if x = 0 then 0
           else (let u = pow2 (max (expo x) (- 1022) - 52)
                 in of_int (roundEven (x / u)) * u))"

definition binary64 :: arith where
  "binary64 = \<lparr>js_add = (\<lambda>x y. fl (x + y)), js_sub = (\<lambda>x y. fl (x - y)),
               js_mul = (\<lambda>x y. fl (x * y)), js_div = (\<lambda>x y. fl (x / y))\<rparr>"

text \<open>
  The same four operations without rounding, on the rationals: the arithmetic in which the
  specification's formulas are read.
\<close>

definition exactArith :: arith where
  "exactArith = \<lparr>js_add = (\<lambda>x y. x + y), js_sub = (\<lambda>x y. x - y),
     js_mul = (\<lambda>x y. x * y), js_div = (\<lambda>x y. x / y)\<rparr>"

section \<open>services/storage.ts\<close>

text \<open>\<open>Array.prototype.findIndex\<close>: the index of the first element satisfying the
  predicate; \<open>None\<close> stands for the result \<open>-1\<close>.\<close>

fun findIndex :: "('a \<Rightarrow> bool) \<Rightarrow> 'a list \<Rightarrow> nat option" where
  "findIndex P [] = None"
| "findIndex P (x # xs) = (if P x then Some 0 else map_option Suc (findIndex P xs))"

definition saveProduct :: "Store \<Rightarrow> Product \<Rightarrow> Store" where
  "saveProduct s product =
     (case findIndex (\<lambda>p. p_id p = p_id product) (products s) of
        Some index \<Rightarrow> s\<lparr>products := (products s)[index := product]\<rparr>
      | None \<Rightarrow> s\<lparr>products := products s @ [product]\<rparr>)"

definition deleteProduct :: "Store \<Rightarrow> string \<Rightarrow> Store" where
  "deleteProduct s pid = s\<lparr>products := filter (\<lambda>p. p_id p \<noteq> pid) (products s)\<rparr>"

definition saveCustomer :: "Store \<Rightarrow> Customer \<Rightarrow> Store" where
  "saveCustomer s customer =
     (case findIndex (\<lambda>c. c_id c = c_id customer) (customers s) of
        Some index \<Rightarrow> s\<lparr>customers := (customers s)[index := customer]\<rparr>
      | None \<Rightarrow> s\<lparr>customers := customers s @ [customer]\<rparr>)"

text \<open>The body of the \<open>forEach\<close> of step 2 of \<open>saveBill\<close>:
  \<open>products[pIndex].stock -= item.qty\<close> when the product is found.\<close>

definition deductStock :: "Product list \<Rightarrow> CartItem \<Rightarrow> Product list" where
  "deductStock ps item =
     (case findIndex (\<lambda>p. p_id p = p_id item) ps of
        Some pIndex \<Rightarrow>
          ps[pIndex := (ps ! pIndex)\<lparr>stock := jsSub (stock (ps ! pIndex)) (qty item)\<rparr>]
      | None \<Rightarrow> ps)"

text \<open>The body of the \<open>forEach\<close> of step 2 of \<open>cancelBill\<close>:
  \<open>products[pIndex].stock += item.qty\<close> when the product is found.\<close>

definition restoreStock :: "Product list \<Rightarrow> CartItem \<Rightarrow> Product list" where
  "restoreStock ps item =
     (case findIndex (\<lambda>p. p_id p = p_id item) ps of
        Some pIndex \<Rightarrow>
          ps[pIndex := (ps ! pIndex)\<lparr>stock := jsAdd (stock (ps ! pIndex)) (qty item)\<rparr>]
      | None \<Rightarrow> ps)"

text \<open>
  \<open>saveBill(bill, customer?)\<close>. The first argument is the value \<open>crypto.randomUUID()\<close>
  returns for the new khata entry. The function writes the bills, the products and the
  customers before it reaches the \<open>throw\<close> of step 4, so the result is the pair of the
  exception raised, if any, and the store as it stands when the call ends.
\<close>

definition saveBill :: "string \<Rightarrow> Store \<Rightarrow> Bill \<Rightarrow> Customer option \<Rightarrow> error option \<times> Store" where
  "saveBill uuid s bill customer =
     (let s1 = s\<lparr>bills := bills s @ [bill]\<rparr>;
          s2 = s1\<lparr>products := foldl deductStock (products s1) (items bill)\<rparr>;
          s3 = (case customer of Some c \<Rightarrow> saveCustomer s2 c | None \<Rightarrow> s2)
      in if paymentMode bill = CREDIT \<or> status bill = Status_CREDIT then
           (case customer of
              None \<Rightarrow> (Some CustomerRequired, s3)
            | Some c \<Rightarrow>
                (None, s3\<lparr>khata := khata s3 @
                   [\<lparr>k_id = uuid, billId = Some (b_id bill), k_customerId = c_id c,
                     amount = grandTotal bill, k_type = DEBIT, k_date = b_date bill,
                     description = ''Bill #'' @ take 8 (b_id bill)\<rparr>]\<rparr>))
         else (None, s3))"

definition cancelBill :: "Store \<Rightarrow> string \<Rightarrow> Store" where
  "cancelBill s billId' =
     (case findIndex (\<lambda>b. b_id b = billId') (bills s) of
        None \<Rightarrow> s
      | Some billIndex \<Rightarrow>
          (let bill = bills s ! billIndex in
           if status bill = Status_CANCELLED then s
           else
             (let bill' = bill\<lparr>status := Status_CANCELLED\<rparr>;
                  s1 = s\<lparr>bills := (bills s)[billIndex := bill']\<rparr>;
                  s2 = s1\<lparr>products := foldl restoreStock (products s1) (items bill')\<rparr>
              in if paymentMode bill' = CREDIT
                 then s2\<lparr>khata := filter (\<lambda>k. billId k \<noteq> Some billId') (khata s2)\<rparr>
                 else s2)))"

definition addKhataPayment :: "string \<Rightarrow> Store \<Rightarrow> string \<Rightarrow> rat \<Rightarrow> string \<Rightarrow> Store" where
  "addKhataPayment uuid s cid amt d =
     s\<lparr>khata := khata s @
        [\<lparr>k_id = uuid, billId = None, k_customerId = cid, amount = amt,
          k_type = Khata_CREDIT, k_date = d, description = ''Payment Received''\<rparr>]\<rparr>"

definition addManualKhataDebit ::
  "string \<Rightarrow> Store \<Rightarrow> Customer \<Rightarrow> rat \<Rightarrow> string \<Rightarrow> string \<Rightarrow> Store" where
  "addManualKhataDebit uuid s customer amt d descr =
     (let s1 = saveCustomer s customer
      in s1\<lparr>khata := khata s1 @
           [\<lparr>k_id = uuid, billId = None, k_customerId = c_id customer, amount = amt,
             k_type = DEBIT, k_date = d, description = descr\<rparr>]\<rparr>)"

subsection \<open>Ledger\<close>

text \<open>
  The comparator of the sort in \<open>getLedgerEntry\<close>,
  \<open>(a, b) => new Date(b.date).getTime() - new Date(a.date).getTime()\<close>, as
  \<open>Array.prototype.sort\<close> reads it. \<open>getTime\<close> stands for \<open>new Date(d).getTime()\<close>:
  a whole number of milliseconds, or \<open>None\<close> for the \<open>NaN\<close> of a string that is not a
  date. A difference with a \<open>NaN\<close> in it is \<open>NaN\<close>, which the sort takes for \<open>+0\<close>.
\<close>

definition compareByDate :: "(string \<Rightarrow> int option) \<Rightarrow> LedgerEntry \<Rightarrow> LedgerEntry \<Rightarrow> int" where
  "compareByDate getTime a b =
     (case getTime (date b) of
        None \<Rightarrow> 0
      | Some tb \<Rightarrow> (case getTime (date a) of None \<Rightarrow> 0 | Some ta \<Rightarrow> jsSub tb ta))"

text \<open>
  \<open>getLedgerEntry(date)\<close>. \<open>sortFn\<close> stands for \<open>Array.prototype.sort\<close>, given the
  comparator: its result is prescribed only where the comparator is consistent, and is
  left to the engine elsewhere. The search after the sort compares the date strings
  themselves (\<open>l.date < date\<close>), which is the lexicographic order of \<^typ>\<open>string\<close>.
  The sort works on the array just read from the store and nothing is written back.
\<close>

definition getLedgerEntry ::
  "((LedgerEntry \<Rightarrow> LedgerEntry \<Rightarrow> int) \<Rightarrow> LedgerEntry list \<Rightarrow> LedgerEntry list) \<Rightarrow>
   (string \<Rightarrow> int option) \<Rightarrow> Store \<Rightarrow> string \<Rightarrow> LedgerEntry" where
  "getLedgerEntry sortFn getTime s d =
     (case find (\<lambda>l. date l = d) (ledger s) of
        Some existingEntry \<Rightarrow> existingEntry
      | None \<Rightarrow>
          (let sorted = sortFn (compareByDate getTime) (ledger s);
               lastEntry = find (\<lambda>l. date l < d) sorted;
               openingBalance' = (case lastEntry of Some l \<Rightarrow> closingBalance l | None \<Rightarrow> 0)
           in \<lparr>date = d, openingBalance = openingBalance', grossSales = 0, onlineSales = 0,
               creditSales = 0, expenses = 0, expectedCash = 0, actualCash = 0,
               depositedToBank = 0, closingBalance = 0, difference = 0,
               isClosed = False, isAutoMode = True, l_notes = None\<rparr>))"

definition saveLedgerDay :: "Store \<Rightarrow> LedgerEntry \<Rightarrow> Store" where
  "saveLedgerDay s entry =
     s\<lparr>ledger := filter (\<lambda>l. date l \<noteq> date entry) (ledger s) @ [entry]\<rparr>"

section \<open>pages/Ledger.tsx: closing a day\<close>

text \<open>The state of the Ledger page that \<open>handleCloseDay\<close> reads: the selected date, the
  entry loaded by \<open>fetchData\<close> (\<open>null\<close> before the first load), the mode toggle and the
  form inputs, which are strings.\<close>

record LedgerInputs =
  in_openingBalance :: string
  in_grossSales :: string
  in_onlineSales :: string
  in_creditSales :: string
  in_expenses :: string
  in_actualCash :: string
  in_bankDeposit :: string
  in_notes :: string

record LedgerPage =
  selectedDate :: string
  todayLedger :: "LedgerEntry option"
  pageAutoMode :: bool
  inputs :: LedgerInputs

text \<open>\<open>parseNum\<close>; the parameter is the built-in \<open>parseFloat\<close>, with \<open>None\<close> for \<open>NaN\<close>.\<close>

definition parseNum :: "(string \<Rightarrow> rat option) \<Rightarrow> string \<Rightarrow> rat" where
  "parseNum parseFloat str = (case parseFloat str of None \<Rightarrow> 0 | Some val \<Rightarrow> val)"

text \<open>
  \<open>handleCloseDay\<close>, with the values the component computes from the inputs at render
  (\<open>currentOpening\<close>, ..., \<open>difference\<close>), each sum and difference by the operations
  \<open>ar\<close>. Each early \<open>return\<close> is an error value and leaves the store as it was;
  otherwise the result is the store after \<open>saveLedgerDay\<close>.
\<close>

definition handleCloseDay ::
  "arith \<Rightarrow> (string \<Rightarrow> rat option) \<Rightarrow> LedgerPage \<Rightarrow> Store \<Rightarrow> error + Store" where
  "handleCloseDay ar parseFloat page s =
     (let inp = inputs page;
          currentOpening = parseNum parseFloat (in_openingBalance inp);
          currentGross = parseNum parseFloat (in_grossSales inp);
          currentOnline = parseNum parseFloat (in_onlineSales inp);
          currentCredit = parseNum parseFloat (in_creditSales inp);
          currentExpenses = parseNum parseFloat (in_expenses inp);
          totalDeductions = js_add ar (js_add ar currentOnline currentCredit) currentExpenses;
          expectedCash' = js_sub ar (js_add ar currentOpening currentGross) totalDeductions;
          actualCashVal = parseNum parseFloat (in_actualCash inp);
          bankDepositVal = parseNum parseFloat (in_bankDeposit inp);
          adjustedClosingCash = js_sub ar actualCashVal bankDepositVal;
          difference' = js_sub ar actualCashVal expectedCash'
      in case todayLedger page of
           None \<Rightarrow> Inl NoLedgerLoaded
         | Some today \<Rightarrow>
             if in_actualCash inp = [] then Inl ActualCashMissing
             else if bankDepositVal > actualCashVal then Inl DepositExceedsCash
             else Inr (saveLedgerDay s
               (today\<lparr>date := selectedDate page,
                       openingBalance := currentOpening,
                       grossSales := currentGross,
                       onlineSales := currentOnline,
                       creditSales := currentCredit,
                       expenses := currentExpenses,
                       expectedCash := expectedCash',
                       actualCash := actualCashVal,
                       depositedToBank := bankDepositVal,
                       closingBalance := adjustedClosingCash,
                       difference := difference',
                       isClosed := True,
                       isAutoMode := pageAutoMode page,
                       l_notes := Some (in_notes inp)\<rparr>)))"

section \<open>pages/Billing.tsx: bill totals\<close>

record Totals =
  t_subtotal :: rat
  t_totalGst :: rat
  t_totalDiscount :: rat
  t_grandTotal :: rat

text \<open>\<open>Math.round\<close>: the nearest integer, a tie going up. The result is exact: it is
  a double whenever the argument is.\<close>

definition Math_round :: "rat \<Rightarrow> rat" where
  "Math_round x = of_int \<lfloor>x + 1 / 2\<rfloor>"

text \<open>The pair \<open>(itemTaxable, itemTax)\<close> that the body of the \<open>forEach\<close> of
  \<open>calculateTotals\<close> computes for one cart line, by the operations \<open>ar\<close>.
  \<open>gstIncluded\<close> is optional, and \<open>undefined\<close> takes the else branch.\<close>

definition itemTaxableTax :: "arith \<Rightarrow> CartItem \<Rightarrow> rat \<times> rat" where
  "itemTaxableTax ar item =
     (let qty' = of_int (qty item); price = sellingPrice item; rate = gstPercent item
      in if gstIncluded item = Some True then
           (let totalValue = js_mul ar price qty';
                itemTaxable = js_div ar totalValue (js_add ar 1 (js_div ar rate 100))
            in (itemTaxable, js_sub ar totalValue itemTaxable))
         else
           (let itemTaxable = js_mul ar price qty'
            in (itemTaxable, js_mul ar itemTaxable (js_div ar rate 100))))"

text \<open>\<open>calculateTotals\<close>: the three running sums of the loop, each starting at 0, then
  the rounding. \<open>item.discount || 0\<close> is the discount itself for a number.\<close>

definition calculateTotals :: "arith \<Rightarrow> CartItem list \<Rightarrow> Totals" where
  "calculateTotals ar cart =
     (case foldl (\<lambda>(subtotal', totalGst', totalDiscount') item.
                    (case itemTaxableTax ar item of (itemTaxable, itemTax) \<Rightarrow>
                       (js_add ar subtotal' itemTaxable, js_add ar totalGst' itemTax,
                        js_add ar totalDiscount' (discount item))))
                 (0, 0, 0) cart of
        (subtotal', totalGst', totalDiscount') \<Rightarrow>
          \<lparr>t_subtotal = subtotal', t_totalGst = totalGst', t_totalDiscount = totalDiscount',
           t_grandTotal =
             Math_round (js_sub ar (js_add ar subtotal' totalGst') totalDiscount')\<rparr>)"

section \<open>pages/Khata.tsx: balances\<close>

text \<open>\<open>calculateBalances(khata, custs)\<close>: the dictionary from customer id to balance.
  The sums are taken exactly, as they are for amounts in whole rupees.\<close>

definition balanceStep :: "(string \<rightharpoonup> rat) \<Rightarrow> KhataEntry \<Rightarrow> (string \<rightharpoonup> rat)" where
  "balanceStep balances k =
     (let cur = (case balances (k_customerId k) of None \<Rightarrow> 0 | Some b \<Rightarrow> b)
      in if k_type k = DEBIT then balances(k_customerId k \<mapsto> cur + amount k)
         else balances(k_customerId k \<mapsto> cur - amount k))"

definition calculateBalances :: "KhataEntry list \<Rightarrow> Customer list \<Rightarrow> (string \<rightharpoonup> rat)" where
  "calculateBalances kh custs =
     foldl balanceStep (foldl (\<lambda>balances c. balances(c_id c \<mapsto> 0)) Map.empty custs) kh"

section \<open>Operation histories\<close>

text \<open>Every exported function of services/storage.ts that writes the store, and the
  close-day handler of the Ledger page, as one operation type; \<open>exec\<close> runs one
  operation, with the money operations \<open>ar\<close>. An operation that fails keeps what it
  has written before the failure.\<close>

datatype op =
    OpSaveProduct Product
  | OpDeleteProduct string
  | OpSaveCustomer Customer
  | OpSaveBill string Bill "Customer option"
  | OpCancelBill string
  | OpAddKhataPayment string string rat string
  | OpAddManualKhataDebit string Customer rat string string
  | OpSaveLedgerDay LedgerEntry
  | OpCloseDay "string \<Rightarrow> rat option" LedgerPage

fun exec :: "arith \<Rightarrow> Store \<Rightarrow> op \<Rightarrow> Store" where
  "exec ar s (OpSaveProduct p) = saveProduct s p"
| "exec ar s (OpDeleteProduct pid) = deleteProduct s pid"
| "exec ar s (OpSaveCustomer c) = saveCustomer s c"
| "exec ar s (OpSaveBill uuid bill customer) = snd (saveBill uuid s bill customer)"
| "exec ar s (OpCancelBill bid) = cancelBill s bid"
| "exec ar s (OpAddKhataPayment uuid cid amt d) = addKhataPayment uuid s cid amt d"
| "exec ar s (OpAddManualKhataDebit uuid c amt d descr) =
     addManualKhataDebit uuid s c amt d descr"
| "exec ar s (OpSaveLedgerDay entry) = saveLedgerDay s entry"
| "exec ar s (OpCloseDay parseFloat page) =
     (case handleCloseDay ar parseFloat page s of Inl e \<Rightarrow> s | Inr s' \<Rightarrow> s')"

text \<open>The date of the ledger row an operation may write.\<close>

fun ledgerWriteDate :: "op \<Rightarrow> string option" where
  "ledgerWriteDate (OpSaveLedgerDay entry) = Some (date entry)"
| "ledgerWriteDate (OpCloseDay parseFloat page) = Some (selectedDate page)"
| "ledgerWriteDate other = None"

section \<open>Quantities used in the statements\<close>


definition totalQty :: "CartItem list \<Rightarrow> int" where
  "totalQty its = sum_list (map (\<lambda>it. \<bar>qty it\<bar>) its)"

text \<open>The two stock steps in exact integer arithmetic, to compare the program's with.\<close>

definition deductExact :: "Product list \<Rightarrow> CartItem \<Rightarrow> Product list" where
  "deductExact ps item =
     (case findIndex (\<lambda>p. p_id p = p_id item) ps of
        Some pIndex \<Rightarrow> ps[pIndex := (ps ! pIndex)\<lparr>stock := stock (ps ! pIndex) - qty item\<rparr>]
      | None \<Rightarrow> ps)"

definition restoreExact :: "Product list \<Rightarrow> CartItem \<Rightarrow> Product list" where
  "restoreExact ps item =
     (case findIndex (\<lambda>p. p_id p = p_id item) ps of
        Some pIndex \<Rightarrow> ps[pIndex := (ps ! pIndex)\<lparr>stock := stock (ps ! pIndex) + qty item\<rparr>]
      | None \<Rightarrow> ps)"

text \<open>The per-line taxable value and tax as the specification words them (section 4.3),
  first with the operations \<open>ar\<close> of the program, then in exact arithmetic.\<close>

definition taxableOf :: "arith \<Rightarrow> CartItem \<Rightarrow> rat" where
  "taxableOf ar item =
     (if gstIncluded item = Some True
      then js_div ar (js_mul ar (sellingPrice item) (of_int (qty item)))
                     (js_add ar 1 (js_div ar (gstPercent item) 100))
      else js_mul ar (sellingPrice item) (of_int (qty item)))"

definition taxOf :: "arith \<Rightarrow> CartItem \<Rightarrow> rat" where
  "taxOf ar item =
     (if gstIncluded item = Some True
      then js_sub ar (js_mul ar (sellingPrice item) (of_int (qty item))) (taxableOf ar item)
      else js_mul ar (taxableOf ar item) (js_div ar (gstPercent item) 100))"

definition spec_taxable :: "CartItem \<Rightarrow> rat" where
  "spec_taxable item =
     (if gstIncluded item = Some True
      then sellingPrice item * of_int (qty item) / (1 + gstPercent item / 100)
      else sellingPrice item * of_int (qty item))"

definition spec_tax :: "CartItem \<Rightarrow> rat" where
  "spec_tax item =
     (if gstIncluded item = Some True
      then sellingPrice item * of_int (qty item) - spec_taxable item
      else spec_taxable item * gstPercent item / 100)"

text \<open>The net khata balance of a customer as the specification words it:
  the sum of the DEBIT amounts minus the sum of the CREDIT amounts.\<close>

definition netBalance :: "KhataEntry list \<Rightarrow> string \<Rightarrow> rat" where
  "netBalance kh cid =
     sum_list (map amount (filter (\<lambda>k. k_customerId k = cid \<and> k_type k = DEBIT) kh))
     - sum_list (map amount (filter (\<lambda>k. k_customerId k = cid \<and> k_type k = Khata_CREDIT) kh))"

text \<open>A stable insertion sort by a comparator: the result \<open>Array.prototype.sort\<close> must
  return where the comparator is consistent.\<close>

fun insertBy :: "('a \<Rightarrow> 'a \<Rightarrow> int) \<Rightarrow> 'a \<Rightarrow> 'a list \<Rightarrow> 'a list" where
  "insertBy cmp x [] = [x]"
| "insertBy cmp x (y # ys) = (if cmp x y \<le> 0 then x # y # ys else y # insertBy cmp x ys)"

definition stableSort :: "('a \<Rightarrow> 'a \<Rightarrow> int) \<Rightarrow> 'a list \<Rightarrow> 'a list" where
  "stableSort cmp xs = foldr (insertBy cmp) xs []"

section \<open>Example data\<close>

definition exProduct :: Product where
  "exProduct = \<lparr>p_id = ''p1'', p_name = ''Soap'', code = ''S1'', category = ''General'',
     purchasePrice = 80, sellingPrice = 118, stock = 10, stockUnit = Some ''Piece'',
     gstPercent = 18, gstIncluded = Some True\<rparr>"

definition exItem :: "int \<Rightarrow> CartItem" where
  "exItem n = \<lparr>p_id = ''p1'', p_name = ''Soap'', code = ''S1'', category = ''General'',
     purchasePrice = 80, sellingPrice = 118, stock = 10, stockUnit = Some ''Piece'',
     gstPercent = 18, gstIncluded = Some True, qty = n, discount = 0\<rparr>"

definition exCustomer :: Customer where
  "exCustomer = \<lparr>c_id = ''c1'', c_name = ''Asha'', mobile = ''9000000001'',
     address = None, gst = None\<rparr>"

definition exBill :: "PaymentMode \<Rightarrow> BillStatus \<Rightarrow> int \<Rightarrow> Bill" where
  "exBill m st n = \<lparr>b_id = ''b1'', b_date = ''2024-01-02T10:00:00.000Z'', timestamp = 0,
     items = [exItem n], subtotal = 100 * of_int n, totalGst = 18 * of_int n,
     totalDiscount = 0, grandTotal = 118 * of_int n, paymentMode = m, customerId = None,
     cashAmount = None, upiAmount = None, status = st\<rparr>"

definition exStore :: Store where
  "exStore = emptyStore\<lparr>products := [exProduct]\<rparr>"

text \<open>A credit sale of 236 to the customer \<open>c1\<close>, a payment of 200 by that customer,
  then the cancellation of the bill.\<close>

definition exOverpaid :: Store where
  "exOverpaid =
     cancelBill
       (addKhataPayment ''k2''
          (snd (saveBill ''k1'' exStore (exBill CREDIT Status_CREDIT 2) (Some exCustomer)))
          ''c1'' 200 ''2024-01-03T09:00:00.000Z'')
       ''b1''"

text \<open>A \<open>parseFloat\<close> for the inputs of the example page, and the page itself.\<close>

definition exParseFloat :: "string \<Rightarrow> rat option" where
  "exParseFloat str =
     (if str = ''5000'' then Some 5000 else if str = ''2000'' then Some 2000
      else if str = ''7000'' then Some 7000 else if str = ''1000'' then Some 1000
      else if str = ''300'' then Some 300 else None)"

definition exInputs :: "string \<Rightarrow> LedgerInputs" where
  "exInputs deposit = \<lparr>in_openingBalance = ''1000'', in_grossSales = ''7000'',
     in_onlineSales = ''2000'', in_creditSales = ''1000'', in_expenses = ''300'',
     in_actualCash = ''5000'', in_bankDeposit = deposit, in_notes = ''''\<rparr>"

definition exPage :: "string \<Rightarrow> LedgerPage" where
  "exPage deposit = \<lparr>selectedDate = ''2024-01-02'',
     todayLedger = Some (getLedgerEntry stableSort (\<lambda>d. None) exStore ''2024-01-02''),
     pageAutoMode = True, inputs = exInputs deposit\<rparr>"

text \<open>Stored ledger rows, and a \<open>getTime\<close> giving the milliseconds of their dates
  (1704067200000 for the first of January 2024) and \<open>NaN\<close> for any other string, the
  empty one among them.\<close>

definition exRow :: "string \<Rightarrow> rat \<Rightarrow> LedgerEntry" where
  "exRow d c = \<lparr>date = d, openingBalance = 0, grossSales = c, onlineSales = 0,
     creditSales = 0, expenses = 0, expectedCash = c, actualCash = c, depositedToBank = 0,
     closingBalance = c, difference = 0, isClosed = True, isAutoMode = True, l_notes = None\<rparr>"

definition exGetTime :: "string \<Rightarrow> int option" where
  "exGetTime d =
     (if d = ''2023-12-30'' then Some 1703894400000
      else if d = ''2024-01-01'' then Some 1704067200000
      else if d = ''2024-01-05'' then Some 1704412800000 else None)"

definition exLedgerStore :: Store where
  "exLedgerStore = exStore\<lparr>ledger :=
     [exRow ''2024-01-01'' 3000, exRow ''2023-12-30'' 100, exRow ''2024-01-05'' 900]\<rparr>"

text \<open>A ledger in which a day was closed with the date picker cleared (the row with
  the empty date, closing balance 100), and then the first of January (closing
  balance 3000).\<close>

definition exBadLedger :: Store where
  "exBadLedger = saveLedgerDay (saveLedgerDay exStore (exRow [] 100)) (exRow ''2024-01-01'' 3000)"

text \<open>A product whose stock is \<open>2 ^ 53 + 2\<close>, a number the Inventory form accepts.\<close>

definition exBigStore :: Store where
  "exBigStore = emptyStore\<lparr>products := [exProduct\<lparr>stock := 9007199254740994\<rparr>]\<rparr>"

text \<open>The Ledger form with opening balance 100.10, gross sales 250.20 and actual cash
  350.30, the other inputs empty; \<open>parseFloat\<close> returns the double nearest to the
  decimal, and \<open>NaN\<close> for the empty string.\<close>

definition exParseFloat64 :: "string \<Rightarrow> rat option" where
  "exParseFloat64 str =
     (if str = ''100.10'' then Some (fl (1001 / 10))
      else if str = ''250.20'' then Some (fl (2502 / 10))
      else if str = ''350.30'' then Some (fl (3503 / 10)) else None)"

definition exPage64 :: LedgerPage where
  "exPage64 = \<lparr>selectedDate = ''2024-01-02'',
     todayLedger = Some (getLedgerEntry stableSort (\<lambda>d. None) exStore ''2024-01-02''),
     pageAutoMode = False,
     inputs = \<lparr>in_openingBalance = ''100.10'', in_grossSales = ''250.20'',
       in_onlineSales = [], in_creditSales = [], in_expenses = [],
       in_actualCash = ''350.30'', in_bankDeposit = [], in_notes = []\<rparr>\<rparr>"

definition exClosed64 :: LedgerEntry where
  "exClosed64 = hd (ledger (exec binary64 exStore (OpCloseDay exParseFloat64 exPage64)))"

text \<open>A cart of three tax-inclusive lines: 15.50 at 5%, 50 at 5%, and two units of 22.50
  at 12%.\<close>

definition exLine :: "rat \<Rightarrow> rat \<Rightarrow> int \<Rightarrow> CartItem" where
  "exLine price rate n = \<lparr>p_id = ''p1'', p_name = ''Soap'', code = ''S1'',
     category = ''General'', purchasePrice = 0, sellingPrice = price, stock = 10,
     stockUnit = Some ''Piece'', gstPercent = rate, gstIncluded = Some True,
     qty = n, discount = 0\<rparr>"

definition exCart64 :: "CartItem list" where
  "exCart64 = [exLine (31 / 2) 5 1, exLine 50 5 1, exLine (45 / 2) 12 2]"

section \<open>Example data, unfolded\<close>

lemmas ex_defs = exStore_def emptyStore_def exBill_def exItem_def exProduct_def exCustomer_def

lemmas ex_ledger_defs = exLedgerStore_def exRow_def exGetTime_def

section \<open>Facts about \<open>findIndex\<close>\<close>

lemma findIndex_Some_iff:
  "findIndex P xs = Some i \<longleftrightarrow> i < length xs \<and> P (xs ! i) \<and> (\<forall>j<i. \<not> P (xs ! j))"
proof (induction xs arbitrary: i)
  case Nil
  then show ?case by simp
next
  case (Cons x xs)
  show ?case
  proof (cases "P x")
    case True
    then show ?thesis by (cases i) auto
  next
    case False
    show ?thesis
    proof (cases i)
      case 0
      with False show ?thesis by auto
    next
      case (Suc k)
      have "(\<forall>j<Suc k. \<not> P ((x # xs) ! j)) \<longleftrightarrow> (\<forall>j<k. \<not> P (xs ! j))"
        using False by (auto simp: less_Suc_eq_0_disj)
      with False Suc Cons.IH[of k] show ?thesis by auto
    qed
  qed
qed

lemma findIndex_None_iff: "findIndex P xs = None \<longleftrightarrow> (\<forall>x\<in>set xs. \<not> P x)"
  by (induction xs) auto

lemma findIndex_map: "findIndex P (map f xs) = findIndex (\<lambda>x. P (f x)) xs"
  by (induction xs) auto

lemma findIndex_cong_map:
  "map f ys = map f xs \<Longrightarrow> findIndex (\<lambda>x. P (f x)) ys = findIndex (\<lambda>x. P (f x)) xs"
  by (metis findIndex_map)

lemma findIndex_append_fresh:
  "findIndex P xs = None \<Longrightarrow> P y \<Longrightarrow> findIndex P (xs @ [y]) = Some (length xs)"
  by (induction xs) (auto split: if_splits)

section \<open>Facts about the numbers\<close>

lemma bitLength_numeral [simp]:
  "bitLength (numeral (Num.Bit0 k)) = Suc (bitLength (numeral k))"
  "bitLength (numeral (Num.Bit1 k)) = Suc (bitLength (numeral k))"
  "bitLength 1 = 1"
  "bitLength 0 = 0"
  by (subst bitLength.simps, simp)+

lemma bitLength_le: "n < 2 ^ k \<Longrightarrow> bitLength n \<le> k"
proof (induction k arbitrary: n)
  case 0
  then show ?case by (subst bitLength.simps) simp
next
  case (Suc k)
  show ?case
  proof (cases "n \<le> 0")
    case True
    then show ?thesis by (subst bitLength.simps) simp
  next
    case False
    from Suc.prems have "n div 2 < 2 ^ k" by simp
    then have "bitLength (n div 2) \<le> k" by (rule Suc.IH)
    with False show ?thesis by (subst bitLength.simps) simp
  qed
qed

text \<open>An integer of magnitude up to \<open>2 ^ 53\<close> is a double.\<close>

lemma dbl_safe: "\<bar>n\<bar> \<le> 2 ^ 53 \<Longrightarrow> dbl n = n"
proof (cases "\<bar>n\<bar> < 2 ^ 53")
  case True
  then have "bitLength \<bar>n\<bar> \<le> 53" by (rule bitLength_le)
  then have "bitLength \<bar>n\<bar> - 53 = 0" by simp
  then show ?thesis by (simp add: dbl_def Let_def mult_sgn_abs)
next
  case False
  assume "\<bar>n\<bar> \<le> 2 ^ 53"
  with False have a: "\<bar>n\<bar> = 9007199254740992" by simp
  have "bitLength 9007199254740992 - 53 = 1" by simp
  with a have "dbl n = sgn n * 9007199254740992"
    by (simp add: dbl_def Let_def)
  also have "\<dots> = sgn n * \<bar>n\<bar>" by (simp only: a)
  finally show ?thesis by (simp add: mult_sgn_abs)
qed

lemma jsSub_safe: "\<bar>a - b\<bar> \<le> 2 ^ 53 \<Longrightarrow> jsSub a b = a - b"
  by (simp add: jsSub_def dbl_safe)

lemma jsAdd_safe: "\<bar>a + b\<bar> \<le> 2 ^ 53 \<Longrightarrow> jsAdd a b = a + b"
  by (simp add: jsAdd_def dbl_safe)

section \<open>Stock in exact arithmetic: one step, and a sale undone\<close>

lemma findIndex_bound: "findIndex P xs = Some i \<Longrightarrow> i < length xs"
  by (simp add: findIndex_Some_iff)

lemma deductExact_ids: "map p_id (deductExact ps item) = map p_id ps"
  by (auto simp: deductExact_def map_update list_update_same_conv findIndex_Some_iff split: option.splits)

lemma restoreExact_ids: "map p_id (restoreExact ps item) = map p_id ps"
  by (auto simp: restoreExact_def map_update list_update_same_conv findIndex_Some_iff split: option.splits)

lemma findIndex_deductExact:
  "findIndex (\<lambda>p. p_id p = k) (deductExact ps item) = findIndex (\<lambda>p. p_id p = k) ps"
  using findIndex_cong_map[of p_id "deductExact ps item" ps "\<lambda>x. x = k"]
  by (simp add: deductExact_ids)

lemma findIndex_restoreExact:
  "findIndex (\<lambda>p. p_id p = k) (restoreExact ps item) = findIndex (\<lambda>p. p_id p = k) ps"
  using findIndex_cong_map[of p_id "restoreExact ps item" ps "\<lambda>x. x = k"]
  by (simp add: restoreExact_ids)

lemma restore_deduct_same: "restoreExact (deductExact ps a) a = ps"
proof (cases "findIndex (\<lambda>p. p_id p = p_id a) ps")
  case None
  then show ?thesis by (simp add: restoreExact_def deductExact_def)
next
  case (Some i)
  then have "i < length ps" by (rule findIndex_bound)
  with Some show ?thesis
    unfolding restoreExact_def findIndex_deductExact
    by (simp add: deductExact_def list_update_same_conv)
qed

lemma restore_deduct_commute:
  "restoreExact (deductExact ps a) b = deductExact (restoreExact ps b) a"
proof (cases "findIndex (\<lambda>p. p_id p = p_id a) ps")
  case None
  then show ?thesis
    by (simp add: deductExact_def findIndex_restoreExact)
next
  case A: (Some i)
  then have i: "i < length ps" by (rule findIndex_bound)
  show ?thesis
  proof (cases "findIndex (\<lambda>p. p_id p = p_id b) ps")
    case None
    then show ?thesis
      by (simp add: restoreExact_def findIndex_deductExact)
  next
    case B: (Some j)
    then have j: "j < length ps" by (rule findIndex_bound)
    have L: "restoreExact (deductExact ps a) b =
      (ps[i := (ps ! i)\<lparr>stock := stock (ps ! i) - qty a\<rparr>])
        [j := ((ps[i := (ps ! i)\<lparr>stock := stock (ps ! i) - qty a\<rparr>]) ! j)
               \<lparr>stock := stock ((ps[i := (ps ! i)\<lparr>stock := stock (ps ! i) - qty a\<rparr>]) ! j) + qty b\<rparr>]"
      unfolding restoreExact_def findIndex_deductExact B
      by (simp add: deductExact_def A)
    have R: "deductExact (restoreExact ps b) a =
      (ps[j := (ps ! j)\<lparr>stock := stock (ps ! j) + qty b\<rparr>])
        [i := ((ps[j := (ps ! j)\<lparr>stock := stock (ps ! j) + qty b\<rparr>]) ! i)
               \<lparr>stock := stock ((ps[j := (ps ! j)\<lparr>stock := stock (ps ! j) + qty b\<rparr>]) ! i) - qty a\<rparr>]"
      unfolding deductExact_def findIndex_restoreExact A
      by (simp add: restoreExact_def B)
    show ?thesis
    proof (cases "i = j")
      case True
      with i show ?thesis unfolding L R by (simp add: algebra_simps)
    next
      case False
      with i j show ?thesis unfolding L R by (simp add: list_update_swap)
    qed
  qed
qed

lemma restore_foldl_deduct:
  "restoreExact (foldl deductExact ps its) a = foldl deductExact (restoreExact ps a) its"
  by (induction its arbitrary: ps) (simp_all add: restore_deduct_commute)

lemma foldl_restore_deduct: "foldl restoreExact (foldl deductExact ps its) its = ps"
proof (induction its arbitrary: ps)
  case Nil
  show ?case by simp
next
  case (Cons a its)
  have "foldl restoreExact (foldl deductExact ps (a # its)) (a # its)
        = foldl restoreExact (restoreExact (foldl deductExact (deductExact ps a) its) a) its"
    by simp
  also have "\<dots> = foldl restoreExact (foldl deductExact (restoreExact (deductExact ps a) a) its) its"
    by (simp only: restore_foldl_deduct)
  also have "\<dots> = ps"
    by (simp only: restore_deduct_same Cons.IH)
  finally show ?case .
qed


lemma foldl_deductExact_ids: "map p_id (foldl deductExact ps its) = map p_id ps"
  by (induction its arbitrary: ps) (simp_all add: deductExact_ids)



section \<open>Stock as the program computes it\<close>

lemma deductStock_found:
  "findIndex (\<lambda>p. p_id p = p_id item) ps = Some i \<Longrightarrow>
   deductStock ps item = ps[i := (ps ! i)\<lparr>stock := jsSub (stock (ps ! i)) (qty item)\<rparr>]"
  by (simp add: deductStock_def)

lemma restoreStock_found:
  "findIndex (\<lambda>p. p_id p = p_id item) ps = Some i \<Longrightarrow>
   restoreStock ps item = ps[i := (ps ! i)\<lparr>stock := jsAdd (stock (ps ! i)) (qty item)\<rparr>]"
  by (simp add: restoreStock_def)











lemma totalQty_Cons: "totalQty (a # its) = \<bar>qty a\<bar> + totalQty its"
  by (simp add: totalQty_def)

lemma totalQty_nonneg: "0 \<le> totalQty its"
  by (induction its) (simp_all add: totalQty_def)

text \<open>While every stock stays within \<open>2 ^ 53\<close>, the program's step is the exact one.\<close>

lemma deductStock_exact:
  assumes "\<forall>p\<in>set ps. \<bar>stock p\<bar> + \<bar>qty a\<bar> \<le> 2 ^ 53"
  shows "deductStock ps a = deductExact ps a"
proof (cases "findIndex (\<lambda>p. p_id p = p_id a) ps")
  case None
  then show ?thesis by (simp add: deductStock_def deductExact_def)
next
  case (Some i)
  then have "i < length ps" by (rule findIndex_bound)
  then have "ps ! i \<in> set ps" by simp
  with assms have "\<bar>stock (ps ! i)\<bar> + \<bar>qty a\<bar> \<le> 2 ^ 53" by blast
  then have "\<bar>stock (ps ! i) - qty a\<bar> \<le> 2 ^ 53" by linarith
  then have "jsSub (stock (ps ! i)) (qty a) = stock (ps ! i) - qty a" by (rule jsSub_safe)
  with Some show ?thesis by (simp add: deductStock_def deductExact_def)
qed

lemma deductExact_bound:
  assumes "\<forall>p\<in>set ps. \<bar>stock p\<bar> + (\<bar>qty a\<bar> + m) \<le> B"
  shows "\<forall>p\<in>set (deductExact ps a). \<bar>stock p\<bar> + m \<le> B"
proof (cases "findIndex (\<lambda>p. p_id p = p_id a) ps")
  case None
  with assms show ?thesis by (fastforce simp: deductExact_def)
next
  case (Some i)
  then have i: "i < length ps" by (rule findIndex_bound)
  then have "ps ! i \<in> set ps" by simp
  with assms have "\<bar>stock (ps ! i)\<bar> + (\<bar>qty a\<bar> + m) \<le> B" by blast
  then have new: "\<bar>stock (ps ! i) - qty a\<bar> + m \<le> B" by linarith
  have old: "\<forall>p\<in>set ps. \<bar>stock p\<bar> + m \<le> B"
    using assms by fastforce
  have "set (ps[i := (ps ! i)\<lparr>stock := stock (ps ! i) - qty a\<rparr>])
          \<subseteq> insert ((ps ! i)\<lparr>stock := stock (ps ! i) - qty a\<rparr>) (set ps)"
    by (rule set_update_subset_insert)
  with new old Some show ?thesis by (auto simp: deductExact_def)
qed

lemma foldl_deductExact_bound:
  "\<forall>p\<in>set ps. \<bar>stock p\<bar> + (totalQty its + m) \<le> B \<Longrightarrow>
   \<forall>p\<in>set (foldl deductExact ps its). \<bar>stock p\<bar> + m \<le> B"
proof (induction its arbitrary: ps)
  case Nil
  then show ?case by (simp add: totalQty_def)
next
  case (Cons a its)
  from Cons.prems have "\<forall>p\<in>set ps. \<bar>stock p\<bar> + (\<bar>qty a\<bar> + (totalQty its + m)) \<le> B"
    by (simp add: totalQty_Cons add.assoc)
  then have "\<forall>p\<in>set (deductExact ps a). \<bar>stock p\<bar> + (totalQty its + m) \<le> B"
    by (rule deductExact_bound)
  then show ?case using Cons.IH by simp
qed

lemma foldl_deductStock_exact:
  "\<forall>p\<in>set ps. \<bar>stock p\<bar> + totalQty its \<le> 2 ^ 53 \<Longrightarrow>
   foldl deductStock ps its = foldl deductExact ps its"
proof (induction its arbitrary: ps)
  case Nil
  show ?case by simp
next
  case (Cons a its)
  have nn: "0 \<le> totalQty its" by (rule totalQty_nonneg)
  from Cons.prems have b: "\<forall>p\<in>set ps. \<bar>stock p\<bar> + (\<bar>qty a\<bar> + totalQty its) \<le> 2 ^ 53"
    by (simp add: totalQty_Cons)
  with nn have "\<forall>p\<in>set ps. \<bar>stock p\<bar> + \<bar>qty a\<bar> \<le> 2 ^ 53" by fastforce
  then have step: "deductStock ps a = deductExact ps a" by (rule deductStock_exact)
  from b have "\<forall>p\<in>set (deductExact ps a). \<bar>stock p\<bar> + totalQty its \<le> 2 ^ 53"
    by (rule deductExact_bound)
  then have "foldl deductStock (deductExact ps a) its = foldl deductExact (deductExact ps a) its"
    by (rule Cons.IH)
  with step show ?case by simp
qed


text \<open>Cancelling after the sale, with every value on the way within \<open>2 ^ 53\<close>.\<close>

lemma foldl_restoreStock_after_deduct:
  "\<forall>p\<in>set ps. \<bar>stock p\<bar> + totalQty its \<le> 2 ^ 53 \<Longrightarrow>
   foldl restoreStock (foldl deductExact ps its) its = ps"
proof (induction its arbitrary: ps)
  case Nil
  show ?case by simp
next
  case (Cons a its)
  let ?X = "foldl deductExact (deductExact ps a) its"
  let ?Y = "foldl deductExact ps its"
  have nn: "0 \<le> \<bar>qty a\<bar>" by simp
  from Cons.prems have rest: "\<forall>p\<in>set ps. \<bar>stock p\<bar> + totalQty its \<le> 2 ^ 53"
    by (fastforce simp: totalQty_Cons)
  then have "\<forall>p\<in>set ps. \<bar>stock p\<bar> + (totalQty its + 0) \<le> 2 ^ 53" by simp
  then have Y: "\<forall>p\<in>set ?Y. \<bar>stock p\<bar> + 0 \<le> 2 ^ 53" by (rule foldl_deductExact_bound)
  have ex: "restoreExact ?X a = ?Y"
    by (simp add: restore_foldl_deduct restore_deduct_same)
  have "restoreStock ?X a = restoreExact ?X a"
  proof (cases "findIndex (\<lambda>p. p_id p = p_id a) ?X")
    case None
    then show ?thesis by (simp add: restoreStock_def restoreExact_def)
  next
    case (Some i)
    then have i: "i < length ?X" by (rule findIndex_bound)
    from Some ex have Yeq: "?Y = ?X[i := (?X ! i)\<lparr>stock := stock (?X ! i) + qty a\<rparr>]"
      by (simp add: restoreExact_def)
    then have "?Y ! i = (?X ! i)\<lparr>stock := stock (?X ! i) + qty a\<rparr>"
      using i by (metis nth_list_update_eq)
    moreover have "?Y ! i \<in> set ?Y"
      using i Yeq by (metis length_list_update nth_mem)
    ultimately have "\<bar>stock (?X ! i) + qty a\<bar> \<le> 2 ^ 53"
      using Y by fastforce
    then have "jsAdd (stock (?X ! i)) (qty a) = stock (?X ! i) + qty a" by (rule jsAdd_safe)
    with Some show ?thesis by (simp add: restoreStock_def restoreExact_def)
  qed
  with ex have "restoreStock ?X a = ?Y" by simp
  then have "foldl restoreStock (foldl deductExact ps (a # its)) (a # its)
             = foldl restoreStock ?Y its" by simp
  also have "\<dots> = ps" using rest by (rule Cons.IH)
  finally show ?case .
qed


section \<open>Cancelling and recording a bill\<close>

lemma cancelBill_absent:
  "findIndex (\<lambda>b. b_id b = bid) (bills s) = None \<Longrightarrow> cancelBill s bid = s"
  by (simp add: cancelBill_def)

lemma cancelBill_cancelled:
  "findIndex (\<lambda>b. b_id b = bid) (bills s) = Some i \<Longrightarrow>
   status (bills s ! i) = Status_CANCELLED \<Longrightarrow> cancelBill s bid = s"
  by (simp add: cancelBill_def)

lemma cancelBill_live:
  assumes "findIndex (\<lambda>b. b_id b = bid) (bills s) = Some i"
    and "status (bills s ! i) \<noteq> Status_CANCELLED"
  shows "cancelBill s bid =
     s\<lparr>bills := (bills s)[i := (bills s ! i)\<lparr>status := Status_CANCELLED\<rparr>],
       products := foldl restoreStock (products s) (items (bills s ! i)),
       khata := (if paymentMode (bills s ! i) = CREDIT
                 then filter (\<lambda>k. billId k \<noteq> Some bid) (khata s) else khata s)\<rparr>"
  using assms by (simp add: cancelBill_def Let_def)

lemma findIndex_after_cancel:
  assumes "findIndex (\<lambda>b. b_id b = bid) bs = Some i"
  shows "findIndex (\<lambda>b. b_id b = bid) (bs[i := (bs ! i)\<lparr>status := st\<rparr>]) = Some i"
proof -
  have "i < length bs" using assms by (rule findIndex_bound)
  then have "map b_id (bs[i := (bs ! i)\<lparr>status := st\<rparr>]) = map b_id bs"
    by (simp add: map_update list_update_same_conv)
  from findIndex_cong_map[OF this, of "\<lambda>x. x = bid"] assms show ?thesis by simp
qed

lemma cancelBill_idem: "cancelBill (cancelBill s bid) bid = cancelBill s bid"
proof (cases "findIndex (\<lambda>b. b_id b = bid) (bills s)")
  case None
  then show ?thesis by (simp add: cancelBill_absent)
next
  case (Some i)
  show ?thesis
  proof (cases "status (bills s ! i) = Status_CANCELLED")
    case True
    with Some show ?thesis by (simp add: cancelBill_cancelled)
  next
    case False
    let ?s' = "cancelBill s bid"
    have i: "i < length (bills s)" using Some by (rule findIndex_bound)
    have b: "bills ?s' = (bills s)[i := (bills s ! i)\<lparr>status := Status_CANCELLED\<rparr>]"
      by (simp add: cancelBill_live[OF Some False])
    have "findIndex (\<lambda>b. b_id b = bid) (bills ?s') = Some i"
      unfolding b using Some by (rule findIndex_after_cancel)
    moreover have "status (bills ?s' ! i) = Status_CANCELLED"
      unfolding b using i by simp
    ultimately show ?thesis by (rule cancelBill_cancelled)
  qed
qed

lemma saveBill_bills: "bills (snd (saveBill uuid s bill customer)) = bills s @ [bill]"
  by (simp add: saveBill_def Let_def saveCustomer_def split: option.splits)

lemma saveBill_products:
  "products (snd (saveBill uuid s bill customer)) = foldl deductStock (products s) (items bill)"
  by (simp add: saveBill_def Let_def saveCustomer_def split: option.splits)

lemma saveBill_ledger: "ledger (snd (saveBill uuid s bill customer)) = ledger s"
  by (simp add: saveBill_def Let_def saveCustomer_def split: option.splits)

lemma saveBill_khata_credit:
  assumes "paymentMode bill = CREDIT \<or> status bill = Status_CREDIT"
  shows "saveBill uuid s bill (Some c) =
     (None, (saveCustomer (s\<lparr>bills := bills s @ [bill],
                              products := foldl deductStock (products s) (items bill)\<rparr>) c)
        \<lparr>khata := khata s @
           [\<lparr>k_id = uuid, billId = Some (b_id bill), k_customerId = c_id c,
             amount = grandTotal bill, k_type = DEBIT, k_date = b_date bill,
             description = ''Bill #'' @ take 8 (b_id bill)\<rparr>]\<rparr>)"
  using assms by (auto simp: saveBill_def Let_def saveCustomer_def split: option.splits)

section \<open>The ledger\<close>

lemma find_filter_append_self:
  "P e \<Longrightarrow> find P (filter (\<lambda>x. \<not> P x) xs @ [e]) = Some e"
  by (induction xs) auto

lemma saveLedgerDay_row:
  "filter (\<lambda>l. date l = date e) (ledger (saveLedgerDay s e)) = [e]"
proof -
  have "filter (\<lambda>l. date l = date e) (filter (\<lambda>l. date l \<noteq> date e) (ledger s)) = []"
    by (induction "ledger s") (auto simp: filter_empty_conv)
  then show ?thesis by (simp add: saveLedgerDay_def)
qed

lemma getLedgerEntry_saved: "getLedgerEntry sortFn getTime (saveLedgerDay s e) (date e) = e"
  using find_filter_append_self[of "\<lambda>l. date l = date e" e "ledger s"]
  by (simp add: getLedgerEntry_def saveLedgerDay_def)

lemma saveLedgerDay_distinct:
  assumes "distinct (map date (ledger s))"
  shows "distinct (map date (ledger (saveLedgerDay s e)))"
proof -
  have "distinct (map date (filter (\<lambda>l. date l \<noteq> date e) (ledger s)))"
    using assms by (rule distinct_map_filter)
  moreover have "date e \<notin> date ` set (filter (\<lambda>l. date l \<noteq> date e) (ledger s))"
    by auto
  ultimately show ?thesis by (simp add: saveLedgerDay_def)
qed

lemma saveLedgerDay_others:
  "filter (\<lambda>l. date l \<noteq> date e) (ledger (saveLedgerDay s e))
     = filter (\<lambda>l. date l \<noteq> date e) (ledger s)"
  by (simp add: saveLedgerDay_def)

lemma cancelBill_ledger: "ledger (cancelBill s bid) = ledger s"
  by (simp add: cancelBill_def Let_def split: option.splits)

lemma handleCloseDay_Inr:
  "handleCloseDay ar parseFloat page s = Inr s' \<Longrightarrow>
   \<exists>e. s' = saveLedgerDay s e \<and> date e = selectedDate page"
  by (auto simp: handleCloseDay_def Let_def split: option.splits if_splits)

lemma exec_ledger:
  "ledger (exec ar s x) = ledger s \<or>
   (\<exists>e. ledgerWriteDate x = Some (date e) \<and> ledger (exec ar s x) = ledger (saveLedgerDay s e))"
proof (cases x)
  case (OpCloseDay pf page)
  show ?thesis
  proof (cases "handleCloseDay ar pf page s")
    case (Inl a)
    with OpCloseDay show ?thesis by simp
  next
    case (Inr s')
    from handleCloseDay_Inr[OF Inr] obtain e where "s' = saveLedgerDay s e" "date e = selectedDate page"
      by blast
    with OpCloseDay Inr have "ledgerWriteDate x = Some (date e) \<and> ledger (exec ar s x) = ledger (saveLedgerDay s e)"
      by simp
    then show ?thesis by blast
  qed
qed (auto simp: saveProduct_def deleteProduct_def saveCustomer_def saveBill_ledger cancelBill_ledger
      addKhataPayment_def addManualKhataDebit_def Let_def split: option.splits)

lemma exec_distinct:
  "distinct (map date (ledger s)) \<Longrightarrow> distinct (map date (ledger (exec ar s x)))"
  using exec_ledger[of ar s x] saveLedgerDay_distinct[of s] by auto

lemma run_distinct:
  "distinct (map date (ledger s)) \<Longrightarrow> distinct (map date (ledger (foldl (exec ar) s xs)))"
  by (induction xs arbitrary: s) (simp_all add: exec_distinct)

lemma find_saveLedgerDay_other:
  assumes "date e \<noteq> d"
  shows "find (\<lambda>l. date l = d) (ledger (saveLedgerDay s e)) = find (\<lambda>l. date l = d) (ledger s)"
proof -
  have "find (\<lambda>l. date l = d) (filter (\<lambda>l. date l \<noteq> date e) xs @ [e]) = find (\<lambda>l. date l = d) xs" for xs
    using assms by (induction xs) auto
  then show ?thesis by (simp add: saveLedgerDay_def)
qed

lemma exec_find:
  assumes "ledgerWriteDate x \<noteq> Some d"
  shows "find (\<lambda>l. date l = d) (ledger (exec ar s x)) = find (\<lambda>l. date l = d) (ledger s)"
  using exec_ledger[of ar s x] assms find_saveLedgerDay_other[of _ d s] by auto

lemma run_find:
  assumes "\<forall>x\<in>set xs. ledgerWriteDate x \<noteq> Some d"
  shows "find (\<lambda>l. date l = d) (ledger (foldl (exec ar) s xs)) = find (\<lambda>l. date l = d) (ledger s)"
  using assms by (induction xs arbitrary: s) (simp_all add: exec_find)

lemma getLedgerEntry_stored:
  "find (\<lambda>l. date l = d) (ledger s) = Some e \<Longrightarrow> getLedgerEntry sortFn getTime s d = e"
  by (simp add: getLedgerEntry_def)

lemma find_Some_set: "find P xs = Some x \<Longrightarrow> x \<in> set xs \<and> P x"
  by (induction xs) (auto split: if_splits)

lemma getLedgerEntry_fresh:
  assumes "\<forall>l\<in>set (ledger s). date l \<noteq> d"
  shows "getLedgerEntry sortFn getTime s d =
     \<lparr>date = d,
      openingBalance = (case find (\<lambda>l. date l < d) (sortFn (compareByDate getTime) (ledger s)) of
                          Some l \<Rightarrow> closingBalance l | None \<Rightarrow> 0),
      grossSales = 0, onlineSales = 0, creditSales = 0, expenses = 0, expectedCash = 0,
      actualCash = 0, depositedToBank = 0, closingBalance = 0, difference = 0,
      isClosed = False, isAutoMode = True, l_notes = None\<rparr>"
proof -
  have "find (\<lambda>l. date l = d) (ledger s) = None"
    using assms by (simp add: find_None_iff)
  then show ?thesis by (simp add: getLedgerEntry_def Let_def)
qed

lemma stableSort_all_equal:
  "\<forall>a\<in>set xs. \<forall>b\<in>set xs. cmp a b = 0 \<Longrightarrow> stableSort cmp xs = xs"
proof (induction xs)
  case Nil
  show ?case by (simp add: stableSort_def)
next
  case (Cons x xs)
  then have IH: "foldr (insertBy cmp) xs [] = xs" by (simp add: stableSort_def)
  show ?case
  proof (cases xs)
    case Nil
    then show ?thesis by (simp add: stableSort_def)
  next
    case (Cons y ys)
    with Cons.prems have "cmp x y = 0" by simp
    with Cons IH show ?thesis by (simp add: stableSort_def)
  qed
qed

section \<open>Totals and balances\<close>

lemma foldl_totals:
  "foldl (\<lambda>(subtotal', totalGst', totalDiscount') item.
            (case itemTaxableTax ar item of (itemTaxable, itemTax) \<Rightarrow>
               (js_add ar subtotal' itemTaxable, js_add ar totalGst' itemTax,
                js_add ar totalDiscount' (discount item))))
         (a, b, c) cart
   = (foldl (\<lambda>acc item. js_add ar acc (fst (itemTaxableTax ar item))) a cart,
      foldl (\<lambda>acc item. js_add ar acc (snd (itemTaxableTax ar item))) b cart,
      foldl (\<lambda>acc item. js_add ar acc (discount item)) c cart)"
  by (induction cart arbitrary: a b c) (simp_all add: case_prod_beta)

lemma itemTaxableTax_spec: "itemTaxableTax ar item = (taxableOf ar item, taxOf ar item)"
  by (simp add: itemTaxableTax_def taxableOf_def taxOf_def Let_def)

lemma Math_round_nearest: "\<bar>Math_round x - x\<bar> \<le> 1 / 2"
  unfolding Math_round_def by linarith

lemma netBalance_Cons:
  "netBalance (k # kh) cid =
     (if k_customerId k = cid then (if k_type k = DEBIT then amount k else - amount k) else 0)
     + netBalance kh cid"
  by (cases "k_type k") (simp_all add: netBalance_def)

lemma netBalance_none: "\<forall>k\<in>set kh. k_customerId k \<noteq> cid \<Longrightarrow> netBalance kh cid = 0"
  by (simp add: netBalance_def filter_False)

lemma foldl_balanceStep:
  "foldl balanceStep m kh cid =
     (if \<exists>k\<in>set kh. k_customerId k = cid
      then Some ((case m cid of None \<Rightarrow> 0 | Some b \<Rightarrow> b) + netBalance kh cid)
      else m cid)"
proof (induction kh arbitrary: m)
  case Nil
  then show ?case by simp
next
  case (Cons k kh)
  show ?case
  proof (cases "\<exists>k'\<in>set kh. k_customerId k' = cid")
    case True
    then show ?thesis
      unfolding foldl_Cons Cons.IH netBalance_Cons
      by (auto simp: balanceStep_def Let_def split: option.splits)
  next
    case False
    then have "netBalance kh cid = 0" by (simp add: netBalance_none)
    with False show ?thesis
      unfolding foldl_Cons Cons.IH netBalance_Cons
      by (auto simp: balanceStep_def Let_def split: option.splits)
  qed
qed

lemma init_balances:
  "foldl (\<lambda>balances c. balances(c_id c \<mapsto> 0)) m custs cid =
     (if cid \<in> c_id ` set custs then Some 0 else m cid)"
  by (induction custs arbitrary: m rule: rev_induct) auto

lemma calculateBalances_net:
  assumes "calculateBalances kh custs cid = Some b"
  shows "b = netBalance kh cid"
proof (cases "\<exists>k\<in>set kh. k_customerId k = cid")
  case True
  with assms show ?thesis
    unfolding calculateBalances_def foldl_balanceStep init_balances
    by (auto split: if_splits)
next
  case False
  then have "netBalance kh cid = 0" by (simp add: netBalance_none)
  with False assms show ?thesis
    unfolding calculateBalances_def foldl_balanceStep init_balances
    by (auto split: if_splits)
qed

section \<open>Evaluations in binary64 and further facts\<close>

text \<open>Above \<open>2 ^ 53\<close> only the even integers are doubles; a tie rounds to the even mantissa.\<close>

lemma jsSub_above_safe: "jsSub 9007199254740994 1 = 9007199254740992"
  by code_simp

lemma jsAdd_above_safe: "jsAdd 9007199254740992 1 = 9007199254740992"
  by code_simp


text \<open>The row stored by closing a day with opening balance 100.10 and gross sales 250.20.\<close>

lemma exClosed64_value:
  "exClosed64 =
     \<lparr>date = ''2024-01-02'',
      openingBalance = 3521955646092083 / 35184372088832,
      grossSales = 4401564948312883 / 17592186044416,
      onlineSales = 0, creditSales = 0, expenses = 0,
      expectedCash = 1540635692839731 / 4398046511104,
      actualCash = 6162542771358925 / 17592186044416,
      depositedToBank = 0,
      closingBalance = 6162542771358925 / 17592186044416,
      difference = 1 / 17592186044416,
      isClosed = True, isAutoMode = False, l_notes = Some []\<rparr>"
  by code_simp

lemma exClosed64_ledger:
  "ledger (exec binary64 exStore (OpCloseDay exParseFloat64 exPage64)) = [exClosed64]"
  by code_simp

text \<open>The totals in exact arithmetic, and as three separate accumulations.\<close>

lemma foldl_add_sum_list: "foldl (\<lambda>acc x. acc + f x) (a::rat) xs = a + sum_list (map f xs)"
  by (induction xs arbitrary: a) (simp_all add: add.assoc)

lemma taxableOf_exact: "taxableOf exactArith item = spec_taxable item"
  by (simp add: taxableOf_def spec_taxable_def exactArith_def)

lemma taxOf_exact: "taxOf exactArith item = spec_tax item"
  by (simp add: taxOf_def spec_tax_def taxableOf_exact) (simp add: exactArith_def)

lemma calculateTotals_eq:
  "calculateTotals ar cart =
     \<lparr>t_subtotal = foldl (\<lambda>acc item. js_add ar acc (taxableOf ar item)) 0 cart,
      t_totalGst = foldl (\<lambda>acc item. js_add ar acc (taxOf ar item)) 0 cart,
      t_totalDiscount = foldl (\<lambda>acc item. js_add ar acc (discount item)) 0 cart,
      t_grandTotal = Math_round
        (js_sub ar
           (js_add ar (foldl (\<lambda>acc item. js_add ar acc (taxableOf ar item)) 0 cart)
                      (foldl (\<lambda>acc item. js_add ar acc (taxOf ar item)) 0 cart))
           (foldl (\<lambda>acc item. js_add ar acc (discount item)) 0 cart))\<rparr>"
  unfolding calculateTotals_def foldl_totals by (simp add: itemTaxableTax_spec)

text \<open>The totals of the example cart in binary64.\<close>

lemma exCart64_totals:
  "calculateTotals binary64 exCart64 =
     \<lparr>t_subtotal = 1804246223483855 / 17592186044416,
      t_totalGst = 4470090701571611 / 562949953421312,
      t_totalDiscount = 0, t_grandTotal = 110\<rparr>"
  by code_simp

lemma exCart64_sum:
  "fl (fl (1804246223483855 / 17592186044416 + 4470090701571611 / 562949953421312) - 0)
     = 7775746231631871 / 70368744177664"
  by code_simp

text \<open>A ledger with a row whose date does not parse: every comparison is \<open>NaN\<close>, taken as 0.\<close>

lemma exBadLedger_rows:
  "ledger exBadLedger = [exRow [] 100, exRow ''2024-01-01'' 3000]"
  by (simp add: exBadLedger_def saveLedgerDay_def exRow_def ex_defs)

lemma exBadLedger_compare:
  "\<forall>a\<in>set (ledger exBadLedger). \<forall>b\<in>set (ledger exBadLedger). compareByDate exGetTime a b = 0"
  unfolding exBadLedger_rows
  by (simp add: compareByDate_def exGetTime_def exRow_def jsSub_def dbl_safe)

text \<open>
  The outcome does not depend on the sorting algorithm: any sort that leaves an array of
  pairwise-equal elements as it is (as every stable sort does, and \<open>Array.prototype.sort\<close>
  is stable) gives the opening balance 100.
\<close>

lemma getLedgerEntry_unparsable_any_sort:
  assumes "\<forall>cmp xs. (\<forall>a\<in>set xs. \<forall>b\<in>set xs. cmp a b = 0) \<longrightarrow> sortFn cmp xs = xs"
  shows "openingBalance (getLedgerEntry sortFn exGetTime exBadLedger ''2024-01-02'') = 100"
proof -
  from assms exBadLedger_compare
  have "sortFn (compareByDate exGetTime) (ledger exBadLedger) = ledger exBadLedger" by blast
  moreover have "\<forall>l\<in>set (ledger exBadLedger). date l \<noteq> ''2024-01-02''"
    unfolding exBadLedger_rows by (simp add: exRow_def)
  ultimately show ?thesis
    by (simp add: getLedgerEntry_fresh) (simp add: exBadLedger_rows exRow_def)
qed

section \<open>The claims\<close>

subsection \<open>C1\<close>

text \<open>
  C1. A credit sale recorded without a customer should be rejected before any store
  mutation. Evaluated on a store holding one product with stock 10 and a CREDIT bill of
  two units, \<open>saveBill\<close> raises "Customer required for credit" only in its step 4: by
  then the bill has been appended to the bills and the stock has gone down to 8, and
  both writes stay. Only the customers and the khata are as before.
\<close>

theorem saveBill_credit_without_customer_writes_before_throw:
  "saveBill ''k1'' exStore (exBill CREDIT Status_CREDIT 2) None =
     (Some CustomerRequired,
      exStore\<lparr>products := [exProduct\<lparr>stock := 8\<rparr>],
               bills := [exBill CREDIT Status_CREDIT 2]\<rparr>)
   \<and> bills (snd (saveBill ''k1'' exStore (exBill CREDIT Status_CREDIT 2) None)) \<noteq> bills exStore
   \<and> products (snd (saveBill ''k1'' exStore (exBill CREDIT Status_CREDIT 2) None)) \<noteq> products exStore"
  by (simp add: saveBill_def deductStock_def jsSub_safe ex_defs)

subsection \<open>C2\<close>

text \<open>
  C2. Closing a day with actual cash \<open>A\<close> and bank deposit \<open>D\<close>, both read from the form
  by \<open>parseNum\<close>. When \<open>D > A\<close> the close is rejected and the store is as before. When
  an entry is loaded, the actual cash input is not empty and \<open>D \<le> A\<close>, the close goes
  through. Whenever it goes through, the ledger holds exactly one row for the selected
  date, \<open>getLedgerEntry\<close> returns it, \<open>isClosed\<close> holds, and in that row the opening
  balance, gross, online and credit sales and expenses are the values of the form at
  that moment. The three computed fields are the stated expressions with every \<open>+\<close> and
  \<open>-\<close> the program's operation on numbers, in the program's order:
  \<open>expectedCash = (openingBalance + grossSales) - ((onlineSales + creditSales) + expenses)\<close>,
  \<open>closingBalance = A - D\<close> and \<open>difference = A - expectedCash\<close>. The statement is for any
  four operations \<open>ar\<close>, so it holds of \<^const>\<open>binary64\<close>, where each result is rounded
  to a double. With exact \<open>+\<close> and \<open>-\<close> the equation for \<open>expectedCash\<close> fails: closing
  with opening balance 100.10 and gross sales 250.20 stores 350.29999999999995, which is
  not the sum of the two stored numbers.
\<close>

theorem close_day_entry:
  "(let A = parseNum parseFloat (in_actualCash (inputs page));
        D = parseNum parseFloat (in_bankDeposit (inputs page)) in
    (D > A \<longrightarrow> isl (handleCloseDay ar parseFloat page s)
                \<and> exec ar s (OpCloseDay parseFloat page) = s)
  \<and> (todayLedger page \<noteq> None \<and> in_actualCash (inputs page) \<noteq> [] \<and> D \<le> A \<longrightarrow>
        \<not> isl (handleCloseDay ar parseFloat page s))
  \<and> (\<forall>s'. handleCloseDay ar parseFloat page s = Inr s' \<longrightarrow>
        (\<exists>e. filter (\<lambda>l. date l = selectedDate page) (ledger s') = [e]
           \<and> getLedgerEntry sortFn getTime s' (selectedDate page) = e
           \<and> openingBalance e = parseNum parseFloat (in_openingBalance (inputs page))
           \<and> grossSales e = parseNum parseFloat (in_grossSales (inputs page))
           \<and> onlineSales e = parseNum parseFloat (in_onlineSales (inputs page))
           \<and> creditSales e = parseNum parseFloat (in_creditSales (inputs page))
           \<and> expenses e = parseNum parseFloat (in_expenses (inputs page))
           \<and> expectedCash e =
                js_sub ar (js_add ar (openingBalance e) (grossSales e))
                          (js_add ar (js_add ar (onlineSales e) (creditSales e)) (expenses e))
           \<and> actualCash e = A \<and> depositedToBank e = D
           \<and> closingBalance e = js_sub ar A D
           \<and> difference e = js_sub ar A (expectedCash e)
           \<and> isClosed e)))"
proof -
  define A where "A = parseNum parseFloat (in_actualCash (inputs page))"
  define D where "D = parseNum parseFloat (in_bankDeposit (inputs page))"
  define opening0 where "opening0 = parseNum parseFloat (in_openingBalance (inputs page))"
  define gross where "gross = parseNum parseFloat (in_grossSales (inputs page))"
  define online where "online = parseNum parseFloat (in_onlineSales (inputs page))"
  define credit where "credit = parseNum parseFloat (in_creditSales (inputs page))"
  define expense where "expense = parseNum parseFloat (in_expenses (inputs page))"
  note vals = A_def D_def opening0_def gross_def online_def credit_def expense_def
  have rej: "D > A \<Longrightarrow> isl (handleCloseDay ar parseFloat page s)
      \<and> exec ar s (OpCloseDay parseFloat page) = s"
    by (auto simp: handleCloseDay_def Let_def A_def D_def split: option.splits)
  have acc: "todayLedger page \<noteq> None \<Longrightarrow> in_actualCash (inputs page) \<noteq> [] \<Longrightarrow> D \<le> A \<Longrightarrow>
        \<not> isl (handleCloseDay ar parseFloat page s)"
    by (auto simp: handleCloseDay_def Let_def A_def D_def split: option.splits)
  have ok: "\<exists>e. filter (\<lambda>l. date l = selectedDate page) (ledger s') = [e]
           \<and> getLedgerEntry sortFn getTime s' (selectedDate page) = e
           \<and> openingBalance e = opening0 \<and> grossSales e = gross \<and> onlineSales e = online
           \<and> creditSales e = credit \<and> expenses e = expense
           \<and> expectedCash e =
                js_sub ar (js_add ar (openingBalance e) (grossSales e))
                          (js_add ar (js_add ar (onlineSales e) (creditSales e)) (expenses e))
           \<and> actualCash e = A \<and> depositedToBank e = D
           \<and> closingBalance e = js_sub ar A D
           \<and> difference e = js_sub ar A (expectedCash e)
           \<and> isClosed e"
    if h: "handleCloseDay ar parseFloat page s = Inr s'" for s'
  proof -
    from h obtain today where t: "todayLedger page = Some today"
      by (auto simp: handleCloseDay_def Let_def split: option.splits)
    define e where "e = today\<lparr>date := selectedDate page,
        openingBalance := opening0, grossSales := gross, onlineSales := online,
        creditSales := credit, expenses := expense,
        expectedCash := js_sub ar (js_add ar opening0 gross)
                                  (js_add ar (js_add ar online credit) expense),
        actualCash := A, depositedToBank := D, closingBalance := js_sub ar A D,
        difference := js_sub ar A (js_sub ar (js_add ar opening0 gross)
                                  (js_add ar (js_add ar online credit) expense)),
        isClosed := True, isAutoMode := pageAutoMode page,
        l_notes := Some (in_notes (inputs page))\<rparr>"
    have s': "s' = saveLedgerDay s e"
      using h t by (simp add: handleCloseDay_def Let_def e_def vals split: if_splits)
    have de: "date e = selectedDate page" by (simp add: e_def)
    have "filter (\<lambda>l. date l = selectedDate page) (ledger s') = [e]"
      unfolding s' using saveLedgerDay_row[of e s] by (simp add: de)
    moreover have "getLedgerEntry sortFn getTime s' (selectedDate page) = e"
      unfolding s' using getLedgerEntry_saved[of sortFn getTime s e] by (simp add: de)
    moreover have "openingBalance e = opening0 \<and> grossSales e = gross \<and> onlineSales e = online
           \<and> creditSales e = credit \<and> expenses e = expense
           \<and> expectedCash e =
                js_sub ar (js_add ar (openingBalance e) (grossSales e))
                          (js_add ar (js_add ar (onlineSales e) (creditSales e)) (expenses e))
           \<and> actualCash e = A \<and> depositedToBank e = D
           \<and> closingBalance e = js_sub ar A D
           \<and> difference e = js_sub ar A (expectedCash e)
           \<and> isClosed e"
      by (simp add: e_def)
    ultimately show ?thesis by blast
  qed
  show ?thesis
    unfolding Let_def vals[symmetric]
    using rej acc ok by blast
qed

theorem close_day_entry_witness:
  "isl (handleCloseDay binary64 exParseFloat (exPage ''7000'') exStore)
   \<and> \<not> isl (handleCloseDay binary64 exParseFloat (exPage ''2000'') exStore)
   \<and> map (\<lambda>e. (date e, expectedCash e, closingBalance e, difference e, isClosed e))
        (ledger (exec binary64 exStore (OpCloseDay exParseFloat (exPage ''2000''))))
      = [(''2024-01-02'', 4700, 3000, 300, True)]"
proof -
  have bad: "parseNum exParseFloat (in_bankDeposit (inputs (exPage ''7000'')))
      > parseNum exParseFloat (in_actualCash (inputs (exPage ''7000'')))"
    by (simp add: parseNum_def exParseFloat_def exPage_def exInputs_def)
  have good: "todayLedger (exPage ''2000'') \<noteq> None \<and> in_actualCash (inputs (exPage ''2000'')) \<noteq> []
      \<and> parseNum exParseFloat (in_bankDeposit (inputs (exPage ''2000'')))
      \<le> parseNum exParseFloat (in_actualCash (inputs (exPage ''2000'')))"
    by (simp add: parseNum_def exParseFloat_def exPage_def exInputs_def)
  from close_day_entry[of exParseFloat "exPage ''7000''" binary64 exStore stableSort exGetTime] bad
  have 1: "isl (handleCloseDay binary64 exParseFloat (exPage ''7000'') exStore)"
    unfolding Let_def by blast
  from close_day_entry[of exParseFloat "exPage ''2000''" binary64 exStore stableSort exGetTime] good
  have 2: "\<not> isl (handleCloseDay binary64 exParseFloat (exPage ''2000'') exStore)"
    unfolding Let_def by blast
  have 3: "map (\<lambda>e. (date e, expectedCash e, closingBalance e, difference e, isClosed e))
        (ledger (exec binary64 exStore (OpCloseDay exParseFloat (exPage ''2000''))))
      = [(''2024-01-02'', 4700, 3000, 300, True)]"
    by code_simp
  from 1 2 3 show ?thesis by blast
qed

theorem close_day_exact_equation_counterexample:
  "ledger (exec binary64 exStore (OpCloseDay exParseFloat64 exPage64)) = [exClosed64]
   \<and> isClosed exClosed64
   \<and> openingBalance exClosed64 = 3521955646092083 / 35184372088832
   \<and> grossSales exClosed64 = 4401564948312883 / 17592186044416
   \<and> onlineSales exClosed64 = 0 \<and> creditSales exClosed64 = 0 \<and> expenses exClosed64 = 0
   \<and> expectedCash exClosed64 = 1540635692839731 / 4398046511104
   \<and> openingBalance exClosed64 + grossSales exClosed64
        - (onlineSales exClosed64 + creditSales exClosed64 + expenses exClosed64)
      = 12325085542717849 / 35184372088832
   \<and> expectedCash exClosed64 \<noteq>
        openingBalance exClosed64 + grossSales exClosed64
        - (onlineSales exClosed64 + creditSales exClosed64 + expenses exClosed64)"
  unfolding exClosed64_ledger by (simp add: exClosed64_value)

subsection \<open>C3\<close>

text \<open>
  C3. After any history of operations on the empty store the ledger has at most one row
  per date. \<open>saveLedgerDay\<close> leaves exactly the saved row under its date and keeps the
  rows of the other dates. \<open>getLedgerEntry\<close> for that date then returns the saved row
  itself, also after a bill is recorded, and after any later operations none of which
  writes the ledger row of that date.
\<close>

theorem ledger_one_row_per_date_closed_row_verbatim:
  "distinct (map date (ledger (foldl (exec ar) emptyStore history)))
   \<and> filter (\<lambda>l. date l = date e) (ledger (saveLedgerDay s e)) = [e]
   \<and> filter (\<lambda>l. date l \<noteq> date e) (ledger (saveLedgerDay s e))
        = filter (\<lambda>l. date l \<noteq> date e) (ledger s)
   \<and> getLedgerEntry sortFn getTime (saveLedgerDay s e) (date e) = e
   \<and> getLedgerEntry sortFn getTime (snd (saveBill uuid (saveLedgerDay s e) bill customer)) (date e) = e
   \<and> ((\<forall>x\<in>set later. ledgerWriteDate x \<noteq> Some (date e)) \<longrightarrow>
        getLedgerEntry sortFn getTime (foldl (exec ar) (saveLedgerDay s e) later) (date e) = e)"
proof -
  have inv: "distinct (map date (ledger (foldl (exec ar) emptyStore history)))"
    by (rule run_distinct) (simp add: emptyStore_def)
  have stored: "find (\<lambda>l. date l = date e) (ledger (saveLedgerDay s e)) = Some e"
    using find_filter_append_self[of "\<lambda>l. date l = date e" e "ledger s"]
    by (simp add: saveLedgerDay_def)
  have bill: "getLedgerEntry sortFn getTime (snd (saveBill uuid (saveLedgerDay s e) bill customer)) (date e) = e"
    by (rule getLedgerEntry_stored) (simp add: saveBill_ledger stored)
  have later: "getLedgerEntry sortFn getTime (foldl (exec ar) (saveLedgerDay s e) later) (date e) = e"
    if "\<forall>x\<in>set later. ledgerWriteDate x \<noteq> Some (date e)"
    by (rule getLedgerEntry_stored) (simp add: run_find[OF that] stored)
  show ?thesis
    using inv bill later
    by (simp add: saveLedgerDay_row saveLedgerDay_others getLedgerEntry_saved)
qed

theorem ledger_one_row_per_date_closed_row_verbatim_witness:
  "getLedgerEntry stableSort exGetTime
     (foldl (exec binary64) (saveLedgerDay exLedgerStore (exRow ''2024-01-05'' 1200))
        [OpSaveBill ''k1'' (exBill CASH Status_PAID 2) None, OpCancelBill ''b1'',
         OpSaveLedgerDay (exRow ''2024-01-06'' 50)])
     ''2024-01-05'' = exRow ''2024-01-05'' 1200
   \<and> map date (ledger (saveLedgerDay exLedgerStore (exRow ''2024-01-05'' 1200)))
       = [''2024-01-01'', ''2023-12-30'', ''2024-01-05'']"
proof -
  have d: "date (exRow ''2024-01-05'' 1200) = ''2024-01-05''" by (simp add: exRow_def)
  have h: "\<forall>x\<in>set [OpSaveBill ''k1'' (exBill CASH Status_PAID 2) None, OpCancelBill ''b1'',
         OpSaveLedgerDay (exRow ''2024-01-06'' 50)]. ledgerWriteDate x \<noteq> Some (date (exRow ''2024-01-05'' 1200))"
    by (simp add: exRow_def)
  from ledger_one_row_per_date_closed_row_verbatim[of binary64 "[]" "exRow ''2024-01-05'' 1200" exLedgerStore
      stableSort exGetTime
      "''k1''" "exBill CASH Status_PAID 2" None
      "[OpSaveBill ''k1'' (exBill CASH Status_PAID 2) None, OpCancelBill ''b1'',
         OpSaveLedgerDay (exRow ''2024-01-06'' 50)]"] h
  have 1: "getLedgerEntry stableSort exGetTime
     (foldl (exec binary64) (saveLedgerDay exLedgerStore (exRow ''2024-01-05'' 1200))
        [OpSaveBill ''k1'' (exBill CASH Status_PAID 2) None, OpCancelBill ''b1'',
         OpSaveLedgerDay (exRow ''2024-01-06'' 50)])
     (date (exRow ''2024-01-05'' 1200)) = exRow ''2024-01-05'' 1200"
    by blast
  have 2: "map date (ledger (saveLedgerDay exLedgerStore (exRow ''2024-01-05'' 1200)))
       = [''2024-01-01'', ''2023-12-30'', ''2024-01-05'']"
    by (simp add: saveLedgerDay_def ex_ledger_defs)
  from 1 2 show ?thesis unfolding d by simp
qed

subsection \<open>C4\<close>

text \<open>
  C4. For a date with no stored row, the opening balance returned by \<open>getLedgerEntry\<close>
  should be the closing balance of the latest stored row dated before it. The ledger
  here holds two rows: one dated \<open>''''\<close> with closing balance 100 (\<open>saveLedgerDay\<close> stores the date it
  is given, and the Ledger page passes the date input, which can be empty) and one dated \<open>2024-01-01\<close> with closing balance 3000. Both
  are dated before \<open>2024-01-02\<close> in the order the code's own test \<open>l.date < date\<close> uses,
  and \<open>2024-01-01\<close> is the later of the two. \<open>new Date('''').getTime()\<close> is \<open>NaN\<close>, so the
  comparator returns \<open>NaN\<close> on every pair, the sort takes all rows as equal and keeps
  their order, and \<open>find\<close> returns the row dated \<open>''''\<close>: the opening balance is 100, not
  3000. The other figures are 0 and the row is not closed.
\<close>

theorem getLedgerEntry_unparsable_date_misses_latest:
  "map (\<lambda>l. (date l, closingBalance l)) (ledger exBadLedger)
     = [([], 100), (''2024-01-01'', 3000)]
   \<and> exGetTime [] = None
   \<and> exGetTime ''2024-01-01'' = Some 1704067200000
   \<and> ([] :: string) < ''2024-01-01''
   \<and> (''2024-01-01'' :: string) < ''2024-01-02''
   \<and> getLedgerEntry stableSort exGetTime exBadLedger ''2024-01-02''
       = \<lparr>date = ''2024-01-02'', openingBalance = 100, grossSales = 0, onlineSales = 0,
          creditSales = 0, expenses = 0, expectedCash = 0, actualCash = 0,
          depositedToBank = 0, closingBalance = 0, difference = 0,
          isClosed = False, isAutoMode = True, l_notes = None\<rparr>"
proof -
  have srt: "stableSort (compareByDate exGetTime) (ledger exBadLedger) = ledger exBadLedger"
    using exBadLedger_compare by (rule stableSort_all_equal)
  have un: "\<forall>l\<in>set (ledger exBadLedger). date l \<noteq> ''2024-01-02''"
    unfolding exBadLedger_rows by (simp add: exRow_def)
  have g: "getLedgerEntry stableSort exGetTime exBadLedger ''2024-01-02''
       = \<lparr>date = ''2024-01-02'', openingBalance = 100, grossSales = 0, onlineSales = 0,
          creditSales = 0, expenses = 0, expectedCash = 0, actualCash = 0,
          depositedToBank = 0, closingBalance = 0, difference = 0,
          isClosed = False, isAutoMode = True, l_notes = None\<rparr>"
    unfolding getLedgerEntry_fresh[OF un] srt by (simp add: exBadLedger_rows exRow_def)
  show ?thesis
    unfolding g by (simp add: exBadLedger_rows exRow_def exGetTime_def)
qed

subsection \<open>C5\<close>

text \<open>
  C5. The totals of a cart, with every arithmetic operation the program's operation on
  numbers. A line contributes \<^const>\<open>taxableOf\<close> and \<^const>\<open>taxOf\<close>, the taxable value
  and the tax as the specification words them (the tax of a tax-exclusive line being
  \<open>taxable * (r / 100)\<close>); subtotal, total tax and total discount are these
  contributions and the discounts added up from 0 in cart order; the grand total is
  \<open>(subtotal + totalGst) - totalDiscount\<close> rounded by \<open>Math.round\<close>, which is
  \<open>\<lfloor>x + 1/2\<rfloor>\<close> and within one half of \<open>x\<close>. The statement is for any four operations
  \<open>ar\<close>, so it holds of \<^const>\<open>binary64\<close> (for finite results: no tax-inclusive line
  has a rate at which \<open>1 + r / 100\<close> is zero). With exact operations
  (\<^const>\<open>exactArith\<close>) the totals are the sums of \<^const>\<open>spec_taxable\<close>,
  \<^const>\<open>spec_tax\<close> and the discounts. The two differ: for the cart of 15.50 at 5%,
  50 at 5% and two units of 22.50 at 12%, all tax-inclusive, the exact value of
  subtotal + tax - discount is 110.5 and rounds to 111, while the program computes
  110.49999999999999 and a grand total of 110.
\<close>

theorem calculateTotals_formula:
  "t_subtotal (calculateTotals ar cart)
     = foldl (\<lambda>acc item. js_add ar acc (taxableOf ar item)) 0 cart
   \<and> t_totalGst (calculateTotals ar cart)
     = foldl (\<lambda>acc item. js_add ar acc (taxOf ar item)) 0 cart
   \<and> t_totalDiscount (calculateTotals ar cart)
     = foldl (\<lambda>acc item. js_add ar acc (discount item)) 0 cart
   \<and> t_grandTotal (calculateTotals ar cart)
     = of_int \<lfloor>js_sub ar (js_add ar (t_subtotal (calculateTotals ar cart))
                                     (t_totalGst (calculateTotals ar cart)))
                          (t_totalDiscount (calculateTotals ar cart)) + 1 / 2\<rfloor>
   \<and> \<bar>t_grandTotal (calculateTotals ar cart)
        - js_sub ar (js_add ar (t_subtotal (calculateTotals ar cart))
                               (t_totalGst (calculateTotals ar cart)))
                    (t_totalDiscount (calculateTotals ar cart))\<bar> \<le> 1 / 2
   \<and> t_subtotal (calculateTotals exactArith cart) = sum_list (map spec_taxable cart)
   \<and> t_totalGst (calculateTotals exactArith cart) = sum_list (map spec_tax cart)
   \<and> t_totalDiscount (calculateTotals exactArith cart) = sum_list (map discount cart)
   \<and> t_grandTotal (calculateTotals exactArith cart)
     = of_int \<lfloor>sum_list (map spec_taxable cart) + sum_list (map spec_tax cart)
                 - sum_list (map discount cart) + 1 / 2\<rfloor>"
proof -
  let ?x = "js_sub ar
           (js_add ar (foldl (\<lambda>acc item. js_add ar acc (taxableOf ar item)) 0 cart)
                      (foldl (\<lambda>acc item. js_add ar acc (taxOf ar item)) 0 cart))
           (foldl (\<lambda>acc item. js_add ar acc (discount item)) 0 cart)"
  have near: "\<bar>Math_round ?x - ?x\<bar> \<le> 1 / 2" by (rule Math_round_nearest)
  have ex1: "foldl (\<lambda>acc item. js_add exactArith acc (taxableOf exactArith item)) 0 cart
      = sum_list (map spec_taxable cart)"
    using foldl_add_sum_list[of spec_taxable 0 cart]
    by (simp add: taxableOf_exact) (simp add: exactArith_def)
  have ex2: "foldl (\<lambda>acc item. js_add exactArith acc (taxOf exactArith item)) 0 cart
      = sum_list (map spec_tax cart)"
    using foldl_add_sum_list[of spec_tax 0 cart]
    by (simp add: taxOf_exact) (simp add: exactArith_def)
  have ex3: "foldl (\<lambda>acc item. js_add exactArith acc (discount item)) 0 cart
      = sum_list (map discount cart)"
    using foldl_add_sum_list[of discount 0 cart] by (simp add: exactArith_def)
  have exact: "calculateTotals exactArith cart =
     \<lparr>t_subtotal = sum_list (map spec_taxable cart),
      t_totalGst = sum_list (map spec_tax cart),
      t_totalDiscount = sum_list (map discount cart),
      t_grandTotal = Math_round (sum_list (map spec_taxable cart) + sum_list (map spec_tax cart)
           - sum_list (map discount cart))\<rparr>"
    unfolding calculateTotals_eq ex1 ex2 ex3 by (simp add: exactArith_def)
  show ?thesis
    unfolding exact unfolding calculateTotals_eq
    using near by (simp add: Math_round_def)
qed

theorem calculateTotals_exact_formula_counterexample:
  "t_grandTotal (calculateTotals binary64 exCart64) = 110
   \<and> js_sub binary64 (js_add binary64 (t_subtotal (calculateTotals binary64 exCart64))
                                      (t_totalGst (calculateTotals binary64 exCart64)))
                     (t_totalDiscount (calculateTotals binary64 exCart64))
        = 7775746231631871 / 70368744177664
   \<and> sum_list (map spec_taxable exCart64) + sum_list (map spec_tax exCart64)
        - sum_list (map discount exCart64) = 221 / 2
   \<and> Math_round (sum_list (map spec_taxable exCart64) + sum_list (map spec_tax exCart64)
        - sum_list (map discount exCart64)) = 111
   \<and> t_grandTotal (calculateTotals binary64 exCart64) \<noteq>
       Math_round (sum_list (map spec_taxable exCart64) + sum_list (map spec_tax exCart64)
        - sum_list (map discount exCart64))"
proof -
  have e: "sum_list (map spec_taxable exCart64) + sum_list (map spec_tax exCart64)
        - sum_list (map discount exCart64) = 221 / 2"
    by (simp add: exCart64_def exLine_def spec_taxable_def spec_tax_def)
  have r: "Math_round (221 / 2) = 111"
    by code_simp
  have s: "js_sub binary64 (js_add binary64 (1804246223483855 / 17592186044416)
                                           (4470090701571611 / 562949953421312)) 0
        = 7775746231631871 / 70368744177664"
    using exCart64_sum by (simp add: binary64_def)
  show ?thesis
    unfolding e r exCart64_totals by (simp add: s)
qed

subsection \<open>C6\<close>

text \<open>
  C6. Recording a bill and then cancelling that bill returns every product's stock to
  its original value: the whole products collection is as before the sale. "That bill"
  is the bill just recorded: its id is not the id of a bill stored before, so that
  \<open>cancelBill\<close> finds it, and it is not recorded as already CANCELLED, so that the
  cancellation takes place. Stock is a double: the result is for stocks and quantities
  with \<open>\<bar>stock\<bar> + \<close> (the sum of the \<open>\<bar>qty\<bar>\<close> of the bill's lines) at most \<open>2 ^ 53\<close> for
  every product, so that every value on the way is an integer the double holds
  exactly. The result holds whether or not \<open>saveBill\<close> raised. Beyond the bound it can
  fail: with stock 9007199254740994, selling one unit leaves 9007199254740992, and
  cancelling leaves 9007199254740992 again.
\<close>

theorem record_then_cancel_restores_stock:
  assumes fresh: "findIndex (\<lambda>b. b_id b = b_id bill) (bills s) = None"
    and live: "status bill \<noteq> Status_CANCELLED"
    and bound: "\<forall>p\<in>set (products s). \<bar>stock p\<bar> + totalQty (items bill) \<le> 2 ^ 53"
  shows "products (cancelBill (snd (saveBill uuid s bill customer)) (b_id bill)) = products s"
proof -
  let ?s' = "snd (saveBill uuid s bill customer)"
  have idx: "findIndex (\<lambda>b. b_id b = b_id bill) (bills ?s') = Some (length (bills s))"
    unfolding saveBill_bills using fresh by (simp add: findIndex_append_fresh)
  have nth: "bills ?s' ! length (bills s) = bill"
    unfolding saveBill_bills by simp
  have "products (cancelBill ?s' (b_id bill)) = foldl restoreStock (products ?s') (items bill)"
    using live by (simp add: cancelBill_live[OF idx] nth)
  also have "\<dots> = foldl restoreStock (foldl deductExact (products s) (items bill)) (items bill)"
    by (simp only: saveBill_products foldl_deductStock_exact[OF bound])
  also have "\<dots> = products s"
    using bound by (rule foldl_restoreStock_after_deduct)
  finally show ?thesis .
qed

theorem record_then_cancel_restores_stock_witness:
  "bills exStore = []
   \<and> status (exBill CASH Status_PAID 3) \<noteq> Status_CANCELLED
   \<and> map stock (products exStore) = [10]
   \<and> totalQty (items (exBill CASH Status_PAID 3)) = 3
   \<and> map stock (products (snd (saveBill ''k1'' exStore (exBill CASH Status_PAID 3) None))) = [7]
   \<and> map stock (products (cancelBill (snd (saveBill ''k1'' exStore (exBill CASH Status_PAID 3) None))
        (b_id (exBill CASH Status_PAID 3)))) = [10]"
proof -
  have f: "findIndex (\<lambda>b. b_id b = b_id (exBill CASH Status_PAID 3)) (bills exStore) = None"
    by (simp add: ex_defs)
  have l: "status (exBill CASH Status_PAID 3) \<noteq> Status_CANCELLED"
    by (simp add: ex_defs)
  have t: "totalQty (items (exBill CASH Status_PAID 3)) = 3"
    by (simp add: totalQty_def ex_defs)
  have p: "map stock (products exStore) = [10]" and e: "bills exStore = []"
    by (simp_all add: ex_defs)
  have b: "\<forall>p\<in>set (products exStore).
             \<bar>stock p\<bar> + totalQty (items (exBill CASH Status_PAID 3)) \<le> 2 ^ 53"
    unfolding t by (simp add: ex_defs)
  have sold: "map stock (products (snd (saveBill ''k1'' exStore (exBill CASH Status_PAID 3) None))) = [7]"
    by (simp add: saveBill_def deductStock_def jsSub_safe ex_defs)
  from record_then_cancel_restores_stock[OF f l b, of "''k1''" None] l t p e sold
  show ?thesis by simp
qed

theorem record_then_cancel_large_stock_counterexample:
  "bills exBigStore = []
   \<and> status (exBill CASH Status_PAID 1) \<noteq> Status_CANCELLED
   \<and> map p_id (products exBigStore) = [''p1'']
   \<and> map stock (products exBigStore) = [9007199254740994]
   \<and> map p_id (products (snd (saveBill ''k1'' exBigStore (exBill CASH Status_PAID 1) None))) = [''p1'']
   \<and> map stock (products (snd (saveBill ''k1'' exBigStore (exBill CASH Status_PAID 1) None)))
        = [9007199254740992]
   \<and> map stock (products (cancelBill (snd (saveBill ''k1'' exBigStore (exBill CASH Status_PAID 1) None))
        ''b1'')) = [9007199254740992]
   \<and> products (cancelBill (snd (saveBill ''k1'' exBigStore (exBill CASH Status_PAID 1) None)) ''b1'')
        \<noteq> products exBigStore"
proof -
  have s: "snd (saveBill ''k1'' exBigStore (exBill CASH Status_PAID 1) None)
     = emptyStore\<lparr>products := [exProduct\<lparr>stock := 9007199254740992\<rparr>],
                   bills := [exBill CASH Status_PAID 1]\<rparr>"
    by (simp add: saveBill_def deductStock_def jsSub_above_safe exBigStore_def ex_defs)
  have c: "products (cancelBill (emptyStore\<lparr>products := [exProduct\<lparr>stock := 9007199254740992\<rparr>],
                   bills := [exBill CASH Status_PAID 1]\<rparr>) ''b1'')
     = [exProduct\<lparr>stock := 9007199254740992\<rparr>]"
    by (simp add: cancelBill_def restoreStock_def jsAdd_above_safe ex_defs)
  show ?thesis
    unfolding s c by (simp add: exBigStore_def ex_defs)
qed

subsection \<open>C7\<close>

text \<open>
  C7. \<open>cancelBill\<close> changes nothing when no bill has the id, and nothing when the bill
  found is already CANCELLED; hence cancelling twice is the same as cancelling once
  (no second stock restoration, no second khata reversal). Otherwise the bill found has
  its status set to CANCELLED in place: no bill is deleted and every bill keeps its
  items.
\<close>

theorem cancelBill_noop_or_soft_cancel:
  "(findIndex (\<lambda>b. b_id b = bid) (bills s) = None \<longrightarrow> cancelBill s bid = s)
   \<and> (\<forall>i. findIndex (\<lambda>b. b_id b = bid) (bills s) = Some i
            \<and> status (bills s ! i) = Status_CANCELLED \<longrightarrow> cancelBill s bid = s)
   \<and> cancelBill (cancelBill s bid) bid = cancelBill s bid
   \<and> (\<forall>i. findIndex (\<lambda>b. b_id b = bid) (bills s) = Some i
            \<and> status (bills s ! i) \<noteq> Status_CANCELLED \<longrightarrow>
          bills (cancelBill s bid) = (bills s)[i := (bills s ! i)\<lparr>status := Status_CANCELLED\<rparr>])
   \<and> length (bills (cancelBill s bid)) = length (bills s)
   \<and> map items (bills (cancelBill s bid)) = map items (bills s)"
proof -
  have shape: "length (bills (cancelBill s bid)) = length (bills s)
     \<and> map items (bills (cancelBill s bid)) = map items (bills s)"
  proof (cases "findIndex (\<lambda>b. b_id b = bid) (bills s)")
    case None
    then show ?thesis by (simp add: cancelBill_absent)
  next
    case (Some i)
    then have "i < length (bills s)" by (rule findIndex_bound)
    then show ?thesis
      using Some
      by (cases "status (bills s ! i) = Status_CANCELLED")
         (simp_all add: cancelBill_cancelled cancelBill_live map_update list_update_same_conv)
  qed
  show ?thesis
    using shape
    by (auto simp: cancelBill_absent cancelBill_cancelled cancelBill_idem cancelBill_live)
qed

theorem cancelBill_noop_or_soft_cancel_witness:
  "cancelBill exStore ''b1'' = exStore
   \<and> cancelBill (exStore\<lparr>bills := [exBill CASH Status_CANCELLED 2]\<rparr>) ''b1''
       = exStore\<lparr>bills := [exBill CASH Status_CANCELLED 2]\<rparr>
   \<and> bills (cancelBill (exStore\<lparr>bills := [exBill CASH Status_PAID 2]\<rparr>) ''b1'')
       = [exBill CASH Status_CANCELLED 2]"
proof -
  have a: "findIndex (\<lambda>b. b_id b = ''b1'') (bills exStore) = None"
    by (simp add: ex_defs)
  have b: "findIndex (\<lambda>b. b_id b = ''b1'') (bills (exStore\<lparr>bills := [exBill CASH Status_CANCELLED 2]\<rparr>)) = Some 0
     \<and> status (bills (exStore\<lparr>bills := [exBill CASH Status_CANCELLED 2]\<rparr>) ! 0) = Status_CANCELLED"
    by (simp add: ex_defs)
  have c: "findIndex (\<lambda>b. b_id b = ''b1'') (bills (exStore\<lparr>bills := [exBill CASH Status_PAID 2]\<rparr>)) = Some 0
     \<and> status (bills (exStore\<lparr>bills := [exBill CASH Status_PAID 2]\<rparr>) ! 0) \<noteq> Status_CANCELLED"
    by (simp add: ex_defs)
  have d: "(exBill CASH Status_PAID 2)\<lparr>status := Status_CANCELLED\<rparr> = exBill CASH Status_CANCELLED 2"
    by (simp add: ex_defs)
  from cancelBill_noop_or_soft_cancel[of "''b1''" exStore] a
  have 1: "cancelBill exStore ''b1'' = exStore" by blast
  from cancelBill_noop_or_soft_cancel[of "''b1''" "exStore\<lparr>bills := [exBill CASH Status_CANCELLED 2]\<rparr>"] b
  have 2: "cancelBill (exStore\<lparr>bills := [exBill CASH Status_CANCELLED 2]\<rparr>) ''b1''
       = exStore\<lparr>bills := [exBill CASH Status_CANCELLED 2]\<rparr>" by blast
  from cancelBill_noop_or_soft_cancel[of "''b1''" "exStore\<lparr>bills := [exBill CASH Status_PAID 2]\<rparr>"] c
  have "bills (cancelBill (exStore\<lparr>bills := [exBill CASH Status_PAID 2]\<rparr>) ''b1'')
     = (bills (exStore\<lparr>bills := [exBill CASH Status_PAID 2]\<rparr>))
         [0 := (bills (exStore\<lparr>bills := [exBill CASH Status_PAID 2]\<rparr>) ! 0)\<lparr>status := Status_CANCELLED\<rparr>]"
    by blast
  then have 3: "bills (cancelBill (exStore\<lparr>bills := [exBill CASH Status_PAID 2]\<rparr>) ''b1'')
       = [exBill CASH Status_CANCELLED 2]"
    by (simp add: d)
  from 1 2 3 show ?thesis by simp
qed

subsection \<open>C8\<close>

text \<open>
  C8. Cancelling a live bill whose payment mode is CREDIT leaves in the khata exactly the
  entries whose \<open>billId\<close> is not the cancelled id, in their order, and adds none. The
  entries without a \<open>billId\<close> are the same before and after any \<open>cancelBill\<close>, and a
  payment is such an entry. In the history "credit sale of 236, payment of 200,
  cancellation" the customer's balance ends at \<open>-200\<close>, both as the Khata page computes
  it and as debits minus credits.
\<close>

theorem cancel_credit_bill_deletes_debits_keeps_payments:
  "(\<forall>i. findIndex (\<lambda>b. b_id b = bid) (bills s) = Some i
          \<and> status (bills s ! i) \<noteq> Status_CANCELLED
          \<and> paymentMode (bills s ! i) = CREDIT \<longrightarrow>
        khata (cancelBill s bid) = filter (\<lambda>k. billId k \<noteq> Some bid) (khata s))
   \<and> filter (\<lambda>k. billId k = None) (khata (cancelBill s bid))
        = filter (\<lambda>k. billId k = None) (khata s)
   \<and> filter (\<lambda>k. billId k = None) (khata (addKhataPayment uuid s cid amt d))
        = filter (\<lambda>k. billId k = None) (khata s) @
          [\<lparr>k_id = uuid, billId = None, k_customerId = cid, amount = amt,
            k_type = Khata_CREDIT, k_date = d, description = ''Payment Received''\<rparr>]
   \<and> calculateBalances (khata exOverpaid) (customers exOverpaid) ''c1'' = Some (- 200)
   \<and> netBalance (khata exOverpaid) ''c1'' = - 200"
proof -
  have keep: "filter (\<lambda>k. billId k = None) (khata (cancelBill s bid))
        = filter (\<lambda>k. billId k = None) (khata s)"
  proof (cases "findIndex (\<lambda>b. b_id b = bid) (bills s)")
    case None
    then show ?thesis by (simp add: cancelBill_absent)
  next
    case (Some i)
    have "filter (\<lambda>k. billId k = None) (filter (\<lambda>k. billId k \<noteq> Some bid) (khata s))
        = filter (\<lambda>k. billId k = None) (khata s)"
      by (induction "khata s") (auto intro: filter_cong)
    then show ?thesis
      using Some
      by (cases "status (bills s ! i) = Status_CANCELLED")
         (simp_all add: cancelBill_cancelled cancelBill_live)
  qed
  have neg: "calculateBalances (khata exOverpaid) (customers exOverpaid) ''c1'' = Some (- 200)"
    by (simp add: exOverpaid_def calculateBalances_def balanceStep_def saveBill_def cancelBill_def
        addKhataPayment_def saveCustomer_def deductStock_def restoreStock_def
        jsSub_safe jsAdd_safe ex_defs)
  have net: "netBalance (khata exOverpaid) ''c1'' = - 200"
    using calculateBalances_net[OF neg] by simp
  show ?thesis
    using keep neg net by (simp add: cancelBill_live addKhataPayment_def)
qed

theorem cancel_credit_bill_deletes_debits_keeps_payments_witness:
  "map (\<lambda>k. (billId k, k_type k, amount k))
     (khata (addKhataPayment ''k2''
          (snd (saveBill ''k1'' exStore (exBill CREDIT Status_CREDIT 2) (Some exCustomer)))
          ''c1'' 200 ''2024-01-03T09:00:00.000Z''))
     = [(Some ''b1'', DEBIT, 236), (None, Khata_CREDIT, 200)]
   \<and> map (\<lambda>k. (billId k, k_type k, amount k)) (khata exOverpaid) = [(None, Khata_CREDIT, 200)]"
proof -
  let ?s = "addKhataPayment ''k2''
          (snd (saveBill ''k1'' exStore (exBill CREDIT Status_CREDIT 2) (Some exCustomer)))
          ''c1'' 200 ''2024-01-03T09:00:00.000Z''"
  have b: "bills ?s = [exBill CREDIT Status_CREDIT 2]"
    by (simp add: addKhataPayment_def saveBill_bills) (simp add: ex_defs)
  have k: "map (\<lambda>k. (billId k, k_type k, amount k)) (khata ?s)
     = [(Some ''b1'', DEBIT, 236), (None, Khata_CREDIT, 200)]"
    by (simp add: addKhataPayment_def saveBill_def saveCustomer_def ex_defs)
  have h: "findIndex (\<lambda>b. b_id b = ''b1'') (bills ?s) = Some 0
          \<and> status (bills ?s ! 0) \<noteq> Status_CANCELLED
          \<and> paymentMode (bills ?s ! 0) = CREDIT"
    unfolding b by (simp add: ex_defs)
  from cancel_credit_bill_deletes_debits_keeps_payments[of "''b1''" ?s] h
  have "khata (cancelBill ?s ''b1'') = filter (\<lambda>k. billId k \<noteq> Some ''b1'') (khata ?s)"
    by blast
  then have "map (\<lambda>k. (billId k, k_type k, amount k)) (khata exOverpaid)
     = map (\<lambda>k. (billId k, k_type k, amount k)) (filter (\<lambda>k. billId k \<noteq> Some ''b1'') (khata ?s))"
    by (simp add: exOverpaid_def)
  also have "\<dots> = filter (\<lambda>t. fst t \<noteq> Some ''b1'') (map (\<lambda>k. (billId k, k_type k, amount k)) (khata ?s))"
    by (simp add: filter_map comp_def)
  also have "\<dots> = [(None, Khata_CREDIT, 200)]"
    unfolding k by simp
  finally show ?thesis using k by simp
qed

subsection \<open>C9\<close>



subsection \<open>C10\<close>

text \<open>
  C10. A bill with status CREDIT and a payment mode other than CREDIT, recorded with a
  customer: \<open>saveBill\<close> returns normally and appends one DEBIT entry carrying the bill's
  id, the customer's id and the grand total. Cancelling that bill (its id is not the id
  of a bill stored before) marks it CANCELLED and leaves the khata as it was after the
  sale, so the debit stays.
\<close>

theorem status_credit_debit_survives_cancel:
  assumes st: "status bill = Status_CREDIT"
    and pm: "paymentMode bill \<noteq> CREDIT"
    and fresh: "findIndex (\<lambda>b. b_id b = b_id bill) (bills s) = None"
  shows "fst (saveBill uuid s bill (Some c)) = None
   \<and> khata (snd (saveBill uuid s bill (Some c))) = khata s @
        [\<lparr>k_id = uuid, billId = Some (b_id bill), k_customerId = c_id c,
          amount = grandTotal bill, k_type = DEBIT, k_date = b_date bill,
          description = ''Bill #'' @ take 8 (b_id bill)\<rparr>]
   \<and> bills (cancelBill (snd (saveBill uuid s bill (Some c))) (b_id bill))
        = bills s @ [bill\<lparr>status := Status_CANCELLED\<rparr>]
   \<and> khata (cancelBill (snd (saveBill uuid s bill (Some c))) (b_id bill))
        = khata (snd (saveBill uuid s bill (Some c)))"
proof -
  let ?s' = "snd (saveBill uuid s bill (Some c))"
  have sv: "fst (saveBill uuid s bill (Some c)) = None
     \<and> khata ?s' = khata s @
        [\<lparr>k_id = uuid, billId = Some (b_id bill), k_customerId = c_id c,
          amount = grandTotal bill, k_type = DEBIT, k_date = b_date bill,
          description = ''Bill #'' @ take 8 (b_id bill)\<rparr>]"
    using st by (simp add: saveBill_khata_credit)
  have idx: "findIndex (\<lambda>b. b_id b = b_id bill) (bills ?s') = Some (length (bills s))"
    unfolding saveBill_bills using fresh by (simp add: findIndex_append_fresh)
  have nth: "bills ?s' ! length (bills s) = bill"
    unfolding saveBill_bills by simp
  have live: "status (bills ?s' ! length (bills s)) \<noteq> Status_CANCELLED"
    unfolding nth using st by simp
  have "bills (cancelBill ?s' (b_id bill)) = bills s @ [bill\<lparr>status := Status_CANCELLED\<rparr>]"
    unfolding cancelBill_live[OF idx live] nth by (simp add: saveBill_bills)
  moreover have "khata (cancelBill ?s' (b_id bill)) = khata ?s'"
    unfolding cancelBill_live[OF idx live] nth using pm by simp
  ultimately show ?thesis using sv by simp
qed

theorem status_credit_debit_survives_cancel_witness:
  "status (exBill UPI Status_CREDIT 2) = Status_CREDIT
   \<and> paymentMode (exBill UPI Status_CREDIT 2) \<noteq> CREDIT
   \<and> findIndex (\<lambda>b. b_id b = b_id (exBill UPI Status_CREDIT 2)) (bills exStore) = None
   \<and> map (\<lambda>k. (billId k, k_customerId k, amount k, k_type k))
        (khata (cancelBill (snd (saveBill ''k1'' exStore (exBill UPI Status_CREDIT 2) (Some exCustomer)))
           (b_id (exBill UPI Status_CREDIT 2))))
      = [(Some ''b1'', ''c1'', 236, DEBIT)]
   \<and> map status (bills (cancelBill (snd (saveBill ''k1'' exStore (exBill UPI Status_CREDIT 2) (Some exCustomer)))
           (b_id (exBill UPI Status_CREDIT 2)))) = [Status_CANCELLED]"
proof -
  have a: "status (exBill UPI Status_CREDIT 2) = Status_CREDIT" by (simp add: ex_defs)
  have b: "paymentMode (exBill UPI Status_CREDIT 2) \<noteq> CREDIT" by (simp add: ex_defs)
  have c: "findIndex (\<lambda>b. b_id b = b_id (exBill UPI Status_CREDIT 2)) (bills exStore) = None"
    by (simp add: ex_defs)
  have d: "bills exStore = [] \<and> khata exStore = []" by (simp add: ex_defs)
  have e: "b_id (exBill UPI Status_CREDIT 2) = ''b1'' \<and> grandTotal (exBill UPI Status_CREDIT 2) = 236
     \<and> c_id exCustomer = ''c1''"
    by (simp add: ex_defs)
  from status_credit_debit_survives_cancel[OF a b c, of "''k1''" exCustomer] a b c
  show ?thesis by (simp add: d e)
qed

end
